theory Spec2Isabelle
  imports Complex_Main
begin

section \<open>JavaScript strings\<close>

text \<open>
  A JavaScript string is modelled as a \<open>string\<close>: one \<open>char\<close> per code unit, for the
  code units below 256. \<open>String.prototype.trim\<close> removes white space and line terminators
  from both ends; below 256 these are TAB, LF, VT, FF, CR, SPACE and NBSP.
\<close>

definition NL :: char where
  "NL = CHR 0x0A"

definition isWhiteSpace :: "char \<Rightarrow> bool" where
  "isWhiteSpace c = (c \<in> {CHR 0x09, CHR 0x0A, CHR 0x0B, CHR 0x0C, CHR 0x0D, CHR 0x20, CHR 0xA0})"

definition trim :: "string \<Rightarrow> string" where
  "trim s = rev (dropWhile isWhiteSpace (rev (dropWhile isWhiteSpace s)))"

text \<open>\<open>s.replaceAll('\n', ' ')\<close>: every line feed becomes one space.\<close>

definition replaceAll_nl :: "string \<Rightarrow> string" where
  "replaceAll_nl s = map (\<lambda>c. if c = NL then CHR 0x20 else c) s"

text \<open>\<open>s.substring(0, n)\<close> for a length \<open>n\<close> that is a non-negative integer.\<close>

definition substring0 :: "nat \<Rightarrow> string \<Rightarrow> string" where
  "substring0 n s = take n s"

text \<open>\<open>s.split(sep)\<close> for a one-character separator: never the empty list.\<close>

fun split :: "char \<Rightarrow> string \<Rightarrow> string list" where
  "split sep [] = [[]]"
| "split sep (c # cs) =
     (if c = sep then [] # split sep cs
      else (case split sep cs of
              [] \<Rightarrow> [[c]]
            | w # ws \<Rightarrow> (c # w) # ws))"

text \<open>\<open>xs.slice(-1)[0]\<close>: the last element, \<open>undefined\<close> for the empty array.\<close>

definition slice_last :: "'a list \<Rightarrow> 'a option" where
  "slice_last xs = (case rev xs of [] \<Rightarrow> None | x # _ \<Rightarrow> Some x)"

section \<open>Context budgeting\<close>

text \<open>
  The loop of \<open>handler\<close> over the retrieved sections:
  \<^verbatim>\<open>
  let numTokens = 0; let contextText = ''; const references = [];
  for (const section of fileSections) {
    numTokens += section.token_count;
    if (numTokens >= CONTEXT_TOKENS_CUTOFF) { break; }
    contextText += `${section.content.trim()}\n---\n`;
    if (!references.includes(section.path)) { references.push(section.path); }
  }
  \<close>
  Token counts are integers.
\<close>

definition CONTEXT_TOKENS_CUTOFF :: int where
  "CONTEXT_TOKENS_CUTOFF = 800"

record file_section =
  path :: string
  content :: string
  token_count :: int
  similarity :: rat

record context_window =
  numTokens :: int
  contextText :: string
  references :: "string list"

definition context_init :: context_window where
  "context_init = \<lparr>numTokens = 0, contextText = [], references = []\<rparr>"

definition section_text :: "file_section \<Rightarrow> string" where
  "section_text section = trim (content section) @ [NL] @ ''---'' @ [NL]"

fun context_loop :: "file_section list \<Rightarrow> context_window \<Rightarrow> context_window" where
  "context_loop [] acc = acc"
| "context_loop (section # rest) acc =
     (let n = numTokens acc + token_count section in
      if n \<ge> CONTEXT_TOKENS_CUTOFF then acc\<lparr>numTokens := n\<rparr>
      else context_loop rest
             \<lparr>numTokens = n,
              contextText = contextText acc @ section_text section,
              references =
                (if path section \<in> set (references acc) then references acc
                 else references acc @ [path section])\<rparr>)"

definition build_context :: "file_section list \<Rightarrow> context_window" where
  "build_context fileSections = context_loop fileSections context_init"

text \<open>
  The specification's reading of the budget: the running total after the first \<open>j\<close>
  sections, and the number of sections of the longest prefix whose running total stays
  strictly below the cutoff after each addition.
\<close>

definition running_total :: "file_section list \<Rightarrow> nat \<Rightarrow> int" where
  "running_total fs j = sum_list (map token_count (take j fs))"

definition budget_prefix :: "file_section list \<Rightarrow> nat" where
  "budget_prefix fs =
     length (takeWhile (\<lambda>j. running_total fs j < CONTEXT_TOKENS_CUTOFF) [1..<Suc (length fs)])"

text \<open>
  The accumulator form of \<open>budget_prefix\<close>, for a running total that starts at \<open>base\<close>,
  and the step of the reference list.
\<close>

definition prefix_from :: "int \<Rightarrow> file_section list \<Rightarrow> nat" where
  "prefix_from base fs =
     length (takeWhile (\<lambda>j. base + running_total fs j < CONTEXT_TOKENS_CUTOFF)
               [1..<Suc (length fs)])"

definition add_reference :: "string list \<Rightarrow> string \<Rightarrow> string list" where
  "add_reference refs p = (if p \<in> set refs then refs else refs @ [p])"

section \<open>Values of parsed JSON\<close>

text \<open>
  The values \<open>JSON.parse\<close> yields, and \<open>undefined\<close> for a missing property. A number is
  held by its rendering \<open>String(n)\<close>, the only thing the handler does with it; an object
  is the list of its properties, each key once.
\<close>

datatype js =
    Undefined
  | Null
  | Bool bool
  | Num string
  | Str string
  | Arr "js list"
  | Obj "(string \<times> js) list"

datatype js_error = TypeError | SyntaxError

text \<open>\<open>v[key]\<close> for a key that no prototype defines: it throws on \<open>undefined\<close> and \<open>null\<close>.\<close>

fun getProp :: "string \<Rightarrow> js \<Rightarrow> js_error + js" where
  "getProp key Undefined = Inl TypeError"
| "getProp key Null = Inl TypeError"
| "getProp key (Obj kvs) = Inr (case map_of kvs key of None \<Rightarrow> Undefined | Some v \<Rightarrow> v)"
| "getProp key v = Inr Undefined"

text \<open>\<open>v[0]\<close>: the first element of an array, the first code unit of a string.\<close>

fun index0 :: "js \<Rightarrow> js_error + js" where
  "index0 Undefined = Inl TypeError"
| "index0 Null = Inl TypeError"
| "index0 (Arr []) = Inr Undefined"
| "index0 (Arr (x # xs)) = Inr x"
| "index0 (Str []) = Inr Undefined"
| "index0 (Str (c # cs)) = Inr (Str [c])"
| "index0 (Obj kvs) = Inr (case map_of kvs ''0'' of None \<Rightarrow> Undefined | Some v \<Rightarrow> v)"
| "index0 v = Inr Undefined"

definition bind_err :: "js_error + 'a \<Rightarrow> ('a \<Rightarrow> js_error + 'b) \<Rightarrow> js_error + 'b" where
  "bind_err r f = (case r of Inl e \<Rightarrow> Inl e | Inr v \<Rightarrow> f v)"

fun intercalate :: "string \<Rightarrow> string list \<Rightarrow> string" where
  "intercalate sep [] = []"
| "intercalate sep [x] = x"
| "intercalate sep (x # y # ys) = x @ sep @ intercalate sep (y # ys)"

text \<open>
  \<open>String(v)\<close>, as string concatenation and \<open>TextEncoder.encode\<close> apply it. An array
  joins the renderings of its elements with commas, \<open>null\<close> and \<open>undefined\<close> elements as
  the empty string. An object renders as \<open>[object Object]\<close>, unless it has a property
  \<open>toString\<close> of its own: a parsed value is never callable, so the conversion then finds
  no method that gives a primitive and throws a TypeError.
\<close>

fun toString :: "js \<Rightarrow> js_error + string"
  and toString_elements :: "js list \<Rightarrow> js_error + string list" where
  "toString Undefined = Inr ''undefined''"
| "toString Null = Inr ''null''"
| "toString (Bool b) = Inr (if b then ''true'' else ''false'')"
| "toString (Num rendering) = Inr rendering"
| "toString (Str s) = Inr s"
| "toString (Arr xs) =
     (case toString_elements xs of
        Inl e \<Rightarrow> Inl e
      | Inr parts \<Rightarrow> Inr (intercalate '','' parts))"
| "toString (Obj kvs) =
     (case map_of kvs ''toString'' of
        None \<Rightarrow> Inr ''[object Object]''
      | Some v \<Rightarrow> Inl TypeError)"
| "toString_elements [] = Inr []"
| "toString_elements (x # xs) =
     (case (case x of Undefined \<Rightarrow> Inr [] | Null \<Rightarrow> Inr [] | _ \<Rightarrow> toString x) of
        Inl e \<Rightarrow> Inl e
      | Inr part \<Rightarrow>
          (case toString_elements xs of
             Inl e \<Rightarrow> Inl e
           | Inr parts \<Rightarrow> Inr (part # parts)))"

section \<open>Models, payloads and chunk text\<close>

datatype model_type = chat_completions | completions

record openai_model =
  model_value :: string
  model_type :: model_type

datatype prompt_input =
    Messages "(string \<times> string) list"
  | Prompt string

record payload =
  payload_model :: string
  temperature :: rat
  top_p :: int
  frequency_penalty :: int
  presence_penalty :: int
  max_tokens :: int
  payload_stream :: bool
  payload_n :: int
  payload_input :: prompt_input

definition getPayload :: "string \<Rightarrow> openai_model \<Rightarrow> payload" where
  "getPayload prompt model =
     \<lparr>payload_model = model_value model,
      temperature = 1 / 10,
      top_p = 1,
      frequency_penalty = 0,
      presence_penalty = 0,
      max_tokens = 500,
      payload_stream = True,
      payload_n = 1,
      payload_input = (case model_type model of
                 chat_completions \<Rightarrow> Messages [(''user'', prompt)]
               | completions \<Rightarrow> Prompt prompt)\<rparr>"

definition getChunkText :: "js \<Rightarrow> openai_model \<Rightarrow> js_error + js" where
  "getChunkText response model =
     (case model_type model of
        chat_completions \<Rightarrow>
          bind_err (bind_err (bind_err (getProp ''choices'' response) index0) (getProp ''delta''))
            (getProp ''content'')
      | completions \<Rightarrow>
          bind_err (bind_err (getProp ''choices'' response) index0) (getProp ''text''))"

section \<open>What the handler imports\<close>

text \<open>
  The constants of \<open>@/lib/constants\<close>, \<open>stringToModel\<close> of \<open>@/lib/utils\<close>, the built-in
  \<open>JSON.parse\<close> (\<open>None\<close> when it throws a SyntaxError) and the rendering of the prompt
  template by the \<open>common-tags\<close> package (from the fallback message, the context text and
  the sanitized query) are parameters of the model.
\<close>

record externals =
  MAX_PROMPT_LENGTH :: nat
  I_DONT_KNOW :: string
  STREAM_SEPARATOR :: string
  stringToModel :: "string \<Rightarrow> openai_model"
  JSON_parse :: "string \<Rightarrow> js option"
  promptTemplate :: "string \<Rightarrow> string \<Rightarrow> string \<Rightarrow> string"

section \<open>The stream transformer\<close>

text \<open>
  The events the \<open>eventsource-parser\<close> hands to \<open>onParse\<close>: a reconnect interval, or an
  event with its \<open>data\<close>.
\<close>

datatype parser_event =
    ReconnectInterval nat
  | Event string

text \<open>
  A chunk handed to \<open>controller.enqueue\<close>: \<open>ReferencesFrame references separator\<close> is the
  encoding of \<open>JSON.stringify(references)\<close> followed by the separator, \<open>ContentFrame text\<close>
  the encoding of \<open>text\<close>.
\<close>

datatype frame =
    ReferencesFrame "string list" string
  | ContentFrame string

datatype controller_state = Readable | Errored | Closed

text \<open>
  The variables \<open>onParse\<close> closes over, the state of the stream's controller, and the
  chunks the controller has accepted, oldest first.
\<close>

record stream_state =
  counter :: nat
  allText :: string
  didSendHeader :: bool
  controller :: controller_state
  enqueued :: "frame list"

text \<open>\<open>controller.enqueue(chunk)\<close> throws a TypeError unless the stream is readable.\<close>

definition enqueue :: "frame \<Rightarrow> stream_state \<Rightarrow> stream_state + stream_state" where
  "enqueue chunk st =
     (if controller st = Readable then Inr (st\<lparr>enqueued := enqueued st @ [chunk]\<rparr>)
      else Inl st)"

text \<open>\<open>controller.error(e)\<close> errors a readable stream and does nothing otherwise.\<close>

definition controller_error :: "stream_state \<Rightarrow> stream_state" where
  "controller_error st =
     (if controller st = Readable then st\<lparr>controller := Errored\<rparr> else st)"

text \<open>
  \<open>(text?.match(/\n/) || []).length\<close>: zero for \<open>undefined\<close> and \<open>null\<close>, non-zero for a
  string that contains a line feed; any other value has no \<open>match\<close> method and the call
  throws.
\<close>

fun matchesNewline :: "js \<Rightarrow> js_error + bool" where
  "matchesNewline Undefined = Inr False"
| "matchesNewline Null = Inr False"
| "matchesNewline (Str s) = Inr (NL \<in> set s)"
| "matchesNewline v = Inl TypeError"

text \<open>\<open>encoder.encode(text)\<close>: the argument defaults to the empty string when undefined.\<close>

definition encode_input :: "js \<Rightarrow> js_error + string" where
  "encode_input text = (case text of Undefined \<Rightarrow> Inr [] | _ \<Rightarrow> toString text)"

text \<open>
  The body of the \<open>try\<close> block of \<open>onParse\<close>: \<open>Inl\<close> is the state at a throw, \<open>Inr\<close> the
  state at the end of the block or at its \<open>return\<close>.
\<close>

definition onParse_try ::
  "externals \<Rightarrow> openai_model \<Rightarrow> string list \<Rightarrow> string \<Rightarrow> stream_state
     \<Rightarrow> stream_state + stream_state" where
  "onParse_try I model refs data st =
     (case (if \<not> didSendHeader st
            then (case enqueue (ReferencesFrame refs (STREAM_SEPARATOR I)) st of
                    Inl s \<Rightarrow> Inl s
                  | Inr s \<Rightarrow> Inr (s\<lparr>didSendHeader := True\<rparr>))
            else Inr st) of
        Inl s \<Rightarrow> Inl s
      | Inr s1 \<Rightarrow>
          (case JSON_parse I data of
             None \<Rightarrow> Inl s1
           | Some json \<Rightarrow>
               (case getChunkText json model of
                  Inl e \<Rightarrow> Inl s1
                | Inr text \<Rightarrow>
                    (case toString text of
                       Inl e \<Rightarrow> Inl s1
                     | Inr rendering \<Rightarrow>
                         (let s2 = s1\<lparr>allText := allText s1 @ rendering\<rparr> in
                          case (if counter s2 < 2 then matchesNewline text else Inr False) of
                            Inl e \<Rightarrow> Inl s2
                          | Inr True \<Rightarrow> Inr s2
                          | Inr False \<Rightarrow>
                              (case encode_input text of
                                 Inl e \<Rightarrow> Inl s2
                               | Inr bytes \<Rightarrow>
                                   (case enqueue (ContentFrame bytes) s2 of
                                      Inl s \<Rightarrow> Inl s
                                    | Inr s3 \<Rightarrow> Inr (s3\<lparr>counter := counter s3 + 1\<rparr>))))))))"

definition onParse ::
  "externals \<Rightarrow> openai_model \<Rightarrow> string list \<Rightarrow> stream_state \<Rightarrow> parser_event
     \<Rightarrow> stream_state" where
  "onParse I model refs st event =
     (case event of
        ReconnectInterval v \<Rightarrow> st
      | Event data \<Rightarrow>
          (if data = ''[DONE]'' then st
           else (case onParse_try I model refs data st of
                   Inl s \<Rightarrow> controller_error s
                 | Inr s \<Rightarrow> s)))"

text \<open>
  \<open>controller.close()\<close> after the loop over the upstream body: it closes a readable
  stream; on an errored one it throws, and the stream stays errored.
\<close>

definition controller_close :: "stream_state \<Rightarrow> stream_state" where
  "controller_close st =
     (if controller st = Readable then st\<lparr>controller := Closed\<rparr> else st)"

definition stream_init :: "string \<Rightarrow> stream_state" where
  "stream_init fullPrompt =
     \<lparr>counter = 0, allText = fullPrompt, didSendHeader = False,
      controller = Readable, enqueued = []\<rparr>"

text \<open>
  \<open>start(controller)\<close>: every event the parser yields from the upstream body goes through
  \<open>onParse\<close>, in order; then the stream is closed. The token count computed in between is
  not used.
\<close>

definition start ::
  "externals \<Rightarrow> openai_model \<Rightarrow> string list \<Rightarrow> string \<Rightarrow> parser_event list
     \<Rightarrow> stream_state" where
  "start I model refs fullPrompt events =
     controller_close (foldl (onParse I model refs) (stream_init fullPrompt) events)"

text \<open>
  An event that reaches the \<open>try\<close> block of \<open>onParse\<close>: an event whose data is not the
  sentinel. A content frame is a chunk other than the references frame.
\<close>

definition is_data_event :: "parser_event \<Rightarrow> bool" where
  "is_data_event ev =
     (case ev of ReconnectInterval v \<Rightarrow> False | Event d \<Rightarrow> d \<noteq> ''[DONE]'')"

definition is_content :: "frame \<Rightarrow> bool" where
  "is_content f = (case f of ReferencesFrame refs sep \<Rightarrow> False | ContentFrame t \<Rightarrow> True)"

text \<open>
  What holds of the stream between two events: once the header is sent, the accepted
  chunks are the references frame and then content frames only; before that, nothing was
  accepted and the stream is readable.
\<close>

definition header_inv :: "string list \<Rightarrow> string \<Rightarrow> stream_state \<Rightarrow> bool" where
  "header_inv refs sep st =
     (if didSendHeader st
      then (\<exists>rest. enqueued st = ReferencesFrame refs sep # rest \<and> list_all is_content rest)
      else enqueued st = [] \<and> controller st = Readable)"

section \<open>The services the handler calls\<close>

text \<open>
  The outcome of \<open>checkCompletionsRateLimits\<close>, with the fields the handlers of this
  repository read from it.
\<close>

record rate_limit =
  success :: bool
  limit :: int
  remaining :: int

record rate_limit_result =
  result :: rate_limit
  hours :: int
  minutes :: int

text \<open>The moderation response: the \<open>flagged\<close> field of each of its results, if it has any.\<close>

datatype moderation_response =
    NoResults
  | Results "bool list"

type_synonym embedding = "rat list"

text \<open>The embedding response: the \<open>embedding\<close> of each entry of its \<open>data\<close>, if it has any.\<close>

datatype embedding_response =
    NoData
  | Data "embedding list"

record retrieval_result =
  rpc_error :: "string option"
  rpc_data :: "file_section list option"

text \<open>
  What \<open>fetch\<close> gives and what \<open>r.json()\<close> makes of it: the promise is rejected (a network
  failure), or the endpoint answered with a status and a body; \<open>r.json()\<close> then gives the
  parsed body, or is rejected when the body is not JSON.
\<close>

datatype 'a fetch_result =
    Rejected string
  | Answered nat "string + 'a"

text \<open>
  The remote calls. \<open>fetch_embeddings\<close> is the \<open>fetch\<close> of \<open>createEmbedding\<close>, once per
  attempt: its first argument here is the number of earlier attempts, then the posted input
  and the key. \<open>createModeration\<close> posts the query to the moderation endpoint and returns
  the parsed body of the answer; it and the other calls are taken to resolve.
  \<open>fetch_completions\<close> gives the events the parser yields from the body of the completion
  response.
\<close>

record services =
  checkCompletionsRateLimits :: "string \<Rightarrow> rate_limit_result"
  getOpenAIKey :: "string \<Rightarrow> string option"
  createModeration :: "string \<Rightarrow> string option \<Rightarrow> moderation_response"
  fetch_embeddings :: "nat \<Rightarrow> string \<Rightarrow> string option \<Rightarrow> embedding_response fetch_result"
  match_file_sections :: "string \<Rightarrow> embedding \<Rightarrow> rat \<Rightarrow> nat \<Rightarrow> nat \<Rightarrow> retrieval_result"
  fetch_completions :: "payload \<Rightarrow> parser_event list"

text \<open>
  \<open>createEmbedding(input, openAIKey)\<close> of \<open>src/lib/openai.edge.ts\<close>:
  \<^verbatim>\<open>
  return await fetch('https://api.openai.com/v1/embeddings', {
    ..., body: JSON.stringify({ model: 'text-embedding-ada-002',
                                input: input.trim().replaceAll('\n', ' ') }),
  }).then((r) => r.json());
  \<close>
  The status of the answer is not looked at: the promise is rejected (\<open>Inl\<close>, with the
  rendering of the reason) only when the fetch is rejected or the body is not JSON.
\<close>

definition createEmbedding ::
  "services \<Rightarrow> nat \<Rightarrow> string \<Rightarrow> string option \<Rightarrow> string + embedding_response" where
  "createEmbedding S attempt input openAIKey =
     (case fetch_embeddings S attempt (replaceAll_nl (trim input)) openAIKey of
        Rejected reason \<Rightarrow> Inl reason
      | Answered code json \<Rightarrow> json)"

text \<open>What the handler does to the outside, in order.\<close>

datatype call =
    RateLimitCall string
  | OpenAIKeyCall string
  | ModerationCall string "string option"
  | Delay nat
  | EmbeddingCall string "string option"
  | RetrievalCall string embedding rat nat nat
  | CompletionCall payload

section \<open>Retry with exponential backoff\<close>

text \<open>The options the handler passes to \<open>backOff\<close>, the delay in milliseconds.\<close>

record backoff_options =
  startingDelay :: nat
  numOfAttempts :: nat

text \<open>
  Modelled from the spec: \<open>backOff(request, {startingDelay, numOfAttempts})\<close> of the
  \<open>exponential-backoff\<close> package, which the handler imports and which is not under src/.
  The specification (section 4.4) has the call wrapped in bounded exponential backoff, with an
  initial delay, up to \<open>numOfAttempts\<close> attempts in total, the delay doubling between
  attempts, and every failure retried alike; on exhaustion the request fails with the last
  error. So: no delay before the first attempt, a delay of \<open>startingDelay * 2 ^ (k - 1)\<close>
  milliseconds before attempt \<open>k + 1\<close>, and the error of the last attempt when none
  succeeds. \<open>attempt\<close> counts the attempts made so far; \<open>c\<close> is the call one attempt
  makes. The last branch, no attempt left before the first, is not reached from attempt 0
  with a positive \<open>numOfAttempts\<close>.
\<close>

function backOff ::
  "call \<Rightarrow> (nat \<Rightarrow> string + 'a) \<Rightarrow> backoff_options \<Rightarrow> nat \<Rightarrow> call list \<times> (string + 'a)" where
  "backOff c request options attempt =
     (if attempt < numOfAttempts options then
        (let waits = (if attempt = 0 then []
                      else [Delay (startingDelay options * 2 ^ (attempt - 1))]) in
         case request attempt of
           Inr v \<Rightarrow> (waits @ [c], Inr v)
         | Inl e \<Rightarrow>
             (if Suc attempt \<ge> numOfAttempts options then (waits @ [c], Inl e)
              else (case backOff c request options (Suc attempt) of
                      (calls, r) \<Rightarrow> (waits @ [c] @ calls, r))))
      else ([], Inl ''Error: Something went wrong.''))"
  by pat_completeness auto
termination
  by (relation "measure (\<lambda>(c, request, options, attempt). numOfAttempts options - attempt)") auto

declare backOff.simps [simp del]

section \<open>The handler\<close>

record request =
  req_method :: string
  pathname :: string
  searchParams_project :: "string option"
  params_model :: string
  params_prompt :: string
  params_iDontKnowMessage :: "string option"

datatype response_body =
    Text string
  | Stream "frame list" controller_state

text \<open>
  A response: its status, the headers the handler passes to the \<open>Response\<close> constructor,
  and its body; a stream is given by the chunks it accepted and its final state.
\<close>

record response =
  status :: nat
  headers :: "(string \<times> string) list"
  body :: response_body

datatype outcome =
    Returned response
  | Thrown string

definition text_response :: "string \<Rightarrow> nat \<Rightarrow> outcome" where
  "text_response message code = Returned \<lparr>status = code, headers = [], body = Text message\<rparr>"

definition after :: "call list \<Rightarrow> call list \<times> outcome \<Rightarrow> call list \<times> outcome" where
  "after calls r = (calls @ fst r, snd r)"

definition flagged :: "moderation_response \<Rightarrow> bool" where
  "flagged moderationResponse =
     (case moderationResponse of Results (f # rest) \<Rightarrow> f | _ \<Rightarrow> False)"

definition promptEmbedding :: "embedding_response \<Rightarrow> embedding option" where
  "promptEmbedding embeddingResult =
     (case embeddingResult of Data (e # rest) \<Rightarrow> Some e | _ \<Rightarrow> None)"

text \<open>From the context loop to the response that carries the stream.\<close>

definition handler_stream ::
  "externals \<Rightarrow> services \<Rightarrow> openai_model \<Rightarrow> string \<Rightarrow> string \<Rightarrow> file_section list
     \<Rightarrow> call list \<times> outcome" where
  "handler_stream I S model iDontKnowMessage sanitizedQuery fileSections =
     (let ctx = build_context fileSections;
          fullPrompt = promptTemplate I
            (if iDontKnowMessage = [] then I_DONT_KNOW I else iDontKnowMessage)
            (contextText ctx) sanitizedQuery;
          payload = getPayload fullPrompt model;
          final = start I model (references ctx) fullPrompt (fetch_completions S payload)
      in ([CompletionCall payload],
          Returned \<lparr>status = 200, headers = [],
                    body = Stream (enqueued final) (controller final)\<rparr>))"

text \<open>
  The arguments \<open>match_threshold: 0.78\<close>, \<open>match_count: 10\<close> and
  \<open>min_content_length: 50\<close> of the call of \<open>match_file_sections\<close>.
\<close>

definition match_threshold :: rat where
  "match_threshold = 78 / 100"

definition match_count :: nat where
  "match_count = 10"

definition min_content_length :: nat where
  "min_content_length = 50"

text \<open>From the embedding of the prompt to the retrieved sections.\<close>

definition handler_retrieve ::
  "externals \<Rightarrow> services \<Rightarrow> openai_model \<Rightarrow> string \<Rightarrow> string \<Rightarrow> string \<Rightarrow> embedding
     \<Rightarrow> call list \<times> outcome" where
  "handler_retrieve I S model iDontKnowMessage sanitizedQuery projectId embedding =
     (let r = match_file_sections S projectId embedding
                match_threshold match_count min_content_length in
      after [RetrievalCall projectId embedding match_threshold match_count min_content_length]
        (case rpc_error r of
           Some message \<Rightarrow> ([], text_response (''Error loading embeddings: '' @ message) 400)
         | None \<Rightarrow>
             (case rpc_data r of
                None \<Rightarrow> ([], text_response ''No relevant sections found'' 400)
              | Some fileSections \<Rightarrow>
                  (if length fileSections = 0
                   then ([], text_response ''No relevant sections found'' 400)
                   else handler_stream I S model iDontKnowMessage sanitizedQuery fileSections))))"

text \<open>From the moderated query to its embedding.\<close>

definition handler_embed ::
  "externals \<Rightarrow> services \<Rightarrow> openai_model \<Rightarrow> string \<Rightarrow> string \<Rightarrow> string \<Rightarrow> string
     \<Rightarrow> string option \<Rightarrow> call list \<times> outcome" where
  "handler_embed I S model iDontKnowMessage prompt sanitizedQuery projectId openAIKey =
     (case backOff (EmbeddingCall sanitizedQuery openAIKey)
             (\<lambda>attempt. createEmbedding S attempt sanitizedQuery openAIKey)
             \<lparr>startingDelay = 10000, numOfAttempts = 10\<rparr> 0 of
        (calls, Inl err) \<Rightarrow>
          (calls,
           text_response
             (''Error creating embedding for prompt '' @ [CHR 0x27] @ prompt @ [CHR 0x27]
                @ '': '' @ err) 400)
      | (calls, Inr embeddingResult) \<Rightarrow>
          after calls
            (case promptEmbedding embeddingResult of
               None \<Rightarrow>
                 ([], text_response
                        (''Error creating embedding for prompt '' @ [CHR 0x27] @ prompt
                           @ [CHR 0x27]) 400)
             | Some embedding \<Rightarrow>
                 handler_retrieve I S model iDontKnowMessage sanitizedQuery projectId embedding))"

text \<open>From the rate limit to the moderation of the query.\<close>

definition handler_admit ::
  "externals \<Rightarrow> services \<Rightarrow> openai_model \<Rightarrow> string \<Rightarrow> string \<Rightarrow> string
     \<Rightarrow> call list \<times> outcome" where
  "handler_admit I S model iDontKnowMessage prompt projectId =
     (let rateLimitResult = checkCompletionsRateLimits S projectId in
      after [RateLimitCall projectId]
        (if \<not> success (result rateLimitResult)
         then ([], text_response ''Too many requests'' 429)
         else
           (let openAIKey = getOpenAIKey S projectId;
                sanitizedQuery = replaceAll_nl (trim prompt);
                moderationResponse = createModeration S sanitizedQuery openAIKey
            in after [OpenAIKeyCall projectId, ModerationCall sanitizedQuery openAIKey]
                 (if flagged moderationResponse
                  then ([], Thrown ''Error: Flagged content'')
                  else handler_embed I S model iDontKnowMessage prompt sanitizedQuery
                         projectId openAIKey))))"

text \<open>
  The project of a request: the \<open>project\<close> search parameter when the path ends in
  \<open>completions\<close>, the last component of the path otherwise.
\<close>

definition projectIdParam :: "request \<Rightarrow> string option" where
  "projectIdParam req =
     (let lastPathComponent = slice_last (split CHR ''/'' (pathname req)) in
      if lastPathComponent = Some ''completions'' then searchParams_project req
      else slice_last (split CHR ''/'' (pathname req)))"

text \<open>
  \<open>handler(req)\<close>: the calls it makes, in order, and what it returns or throws. The request
  body is taken to be JSON with a string \<open>prompt\<close>, as the source's casts assume.
\<close>

definition handler :: "externals \<Rightarrow> services \<Rightarrow> request \<Rightarrow> call list \<times> outcome" where
  "handler I S req =
     (if req_method req = ''OPTIONS'' then ([], text_response ''ok'' 200)
      else if req_method req \<noteq> ''POST''
      then ([], text_response (''Method '' @ req_method req @ '' Not Allowed'') 405)
      else
        (let model = stringToModel I (params_model req);
             prompt = substring0 (MAX_PROMPT_LENGTH I) (params_prompt req);
             iDontKnowMessage =
               (case params_iDontKnowMessage req of
                  None \<Rightarrow> I_DONT_KNOW I
                | Some m \<Rightarrow> if m = [] then I_DONT_KNOW I else m)
         in case projectIdParam req of
              None \<Rightarrow> ([], text_response ''No project found'' 400)
            | Some projectId \<Rightarrow>
                (if projectId = [] then ([], text_response ''No project found'' 400)
                 else if prompt = [] then ([], text_response ''No prompt provided'' 400)
                 else handler_admit I S model iDontKnowMessage prompt projectId)))"

section \<open>Example values\<close>

text \<open>
  Values for the parameters, to run the model on: a completion-style model, the data of
  four upstream events with the values \<open>JSON.parse\<close> gives for them, and services that
  admit the request, do not flag it, embed it at the first attempt and retrieve one section.
\<close>

definition completion_data :: "string \<Rightarrow> string" where
  \<open>completion_data escaped = ''{"choices":[{"text":"'' @ escaped @ ''"}]}''\<close>

definition completion_json :: "string \<Rightarrow> js" where
  "completion_json text = Obj [(''choices'', Arr [Obj [(''text'', Str text)]])]"

definition example_JSON_parse :: "string \<Rightarrow> js option" where
  "example_JSON_parse =
     map_of
       [(completion_data [CHR 0x5C, CHR ''n''], completion_json [NL]),
        (completion_data [CHR 0x5C, CHR ''n'', CHR 0x5C, CHR ''n''], completion_json [NL, NL]),
        (completion_data ''Hello'', completion_json ''Hello''),
        (completion_data '' world'', completion_json '' world''),
        (completion_data (''Hello.'' @ [CHR 0x5C, CHR ''n'']), completion_json (''Hello.'' @ [NL]))]"

definition example_model :: openai_model where
  "example_model = \<lparr>model_value = ''text-davinci-003'', model_type = completions\<rparr>"

definition example_stringToModel :: "string \<Rightarrow> openai_model" where
  "example_stringToModel m = example_model"

definition example_promptTemplate :: "string \<Rightarrow> string \<Rightarrow> string \<Rightarrow> string" where
  "example_promptTemplate iDontKnowMessage context question =
     iDontKnowMessage @ [NL] @ context @ [NL] @ question"

definition example_externals :: externals where
  "example_externals =
     \<lparr>MAX_PROMPT_LENGTH = 200,
      I_DONT_KNOW = ''Sorry, I am not sure how to answer that.'',
      STREAM_SEPARATOR = ''___START_RESPONSE_STREAM___'',
      stringToModel = example_stringToModel,
      JSON_parse = example_JSON_parse,
      promptTemplate = example_promptTemplate\<rparr>"

definition example_sections :: "file_section list" where
  "example_sections =
     [\<lparr>path = ''docs/a.md'', content = '' Refunds within 30 days. '', token_count = 500,
       similarity = 9 / 10\<rparr>,
      \<lparr>path = ''docs/b.md'', content = ''Shipping takes a week.'', token_count = 400,
       similarity = 85 / 100\<rparr>,
      \<lparr>path = ''docs/a.md'', content = ''Contact support.'', token_count = 100,
       similarity = 8 / 10\<rparr>]"

definition example_rate_limit :: "bool \<Rightarrow> int \<Rightarrow> int \<Rightarrow> string \<Rightarrow> rate_limit_result" where
  "example_rate_limit allowed h m projectId =
     \<lparr>result = \<lparr>success = allowed, limit = 100, remaining = (if allowed then 99 else 0)\<rparr>,
      hours = h, minutes = m\<rparr>"

definition example_getOpenAIKey :: "string \<Rightarrow> string option" where
  "example_getOpenAIKey projectId = None"

definition example_moderation :: "bool \<Rightarrow> string \<Rightarrow> string option \<Rightarrow> moderation_response" where
  "example_moderation verdict query key = Results [verdict]"

definition example_fetch_embeddings ::
  "nat \<Rightarrow> nat \<Rightarrow> string \<Rightarrow> string option \<Rightarrow> embedding_response fetch_result" where
  "example_fetch_embeddings failures attempt query key =
     (if attempt < failures then Rejected ''TypeError: fetch failed''
      else Answered 200 (Inr (Data [[1 / 2, 1 / 4]])))"

definition example_retrieval ::
  "file_section list \<Rightarrow> string \<Rightarrow> embedding \<Rightarrow> rat \<Rightarrow> nat \<Rightarrow> nat \<Rightarrow> retrieval_result" where
  "example_retrieval sections projectId e threshold count minLength =
     \<lparr>rpc_error = None, rpc_data = Some sections\<rparr>"

definition example_events :: "parser_event list" where
  "example_events =
     [Event (completion_data [CHR 0x5C, CHR ''n'']),
      Event (completion_data [CHR 0x5C, CHR ''n'', CHR 0x5C, CHR ''n'']),
      Event (completion_data ''Hello''),
      Event (completion_data '' world''),
      Event ''[DONE]'']"

definition example_completions :: "payload \<Rightarrow> parser_event list" where
  "example_completions p = example_events"

definition example_services :: services where
  "example_services =
     \<lparr>checkCompletionsRateLimits = example_rate_limit True 0 0,
      getOpenAIKey = example_getOpenAIKey,
      createModeration = example_moderation False,
      fetch_embeddings = example_fetch_embeddings 0,
      match_file_sections = example_retrieval example_sections,
      fetch_completions = example_completions\<rparr>"

definition example_request :: request where
  "example_request =
     \<lparr>req_method = ''POST'', pathname = ''/api/openai/completions/acme'',
      searchParams_project = None, params_model = ''text-davinci-003'',
      params_prompt = ''What is the refund policy?'', params_iDontKnowMessage = None\<rparr>"

section \<open>Stages of the pipeline\<close>

text \<open>The stage a call belongs to; the delays of the backoff are a stage of their own.\<close>

datatype stage = RateLimit | OpenAIKey | Moderation | Backoff | Embedding | Retrieval | Completion

fun stage_of :: "call \<Rightarrow> stage" where
  "stage_of (RateLimitCall p) = RateLimit"
| "stage_of (OpenAIKeyCall p) = OpenAIKey"
| "stage_of (ModerationCall q k) = Moderation"
| "stage_of (Delay d) = Backoff"
| "stage_of (EmbeddingCall q k) = Embedding"
| "stage_of (RetrievalCall p e t c m) = Retrieval"
| "stage_of (CompletionCall pl) = Completion"

text \<open>
  The calls of \<open>k\<close> attempts under the backoff, from the first attempt on: attempt \<open>i\<close>
  comes after a delay of \<open>delay * 2 ^ (i - 1)\<close>, except the first.
\<close>

definition backoff_step :: "call \<Rightarrow> nat \<Rightarrow> nat \<Rightarrow> call list" where
  "backoff_step c delay i = (if i = 0 then [] else [Delay (delay * 2 ^ (i - 1))]) @ [c]"

definition backoff_calls :: "call \<Rightarrow> nat \<Rightarrow> nat \<Rightarrow> call list" where
  "backoff_calls c delay k = concat (map (backoff_step c delay) [0..<k])"

text \<open>
  The services with other \<open>limit\<close> and \<open>remaining\<close> values in the outcome of the rate
  limiter, everything else as it was.
\<close>

definition with_rate_limit_values ::
  "(string \<Rightarrow> int) \<Rightarrow> (string \<Rightarrow> int) \<Rightarrow> services \<Rightarrow> services" where
  "with_rate_limit_values l m S =
     S\<lparr>checkCompletionsRateLimits :=
         (\<lambda>p. (checkCompletionsRateLimits S p)
                 \<lparr>result := (result (checkCompletionsRateLimits S p))
                               \<lparr>limit := l p, remaining := m p\<rparr>\<rparr>)\<rparr>"

text \<open>
  More example values: a prompt of white space only, and the reason of a rejected
  embedding call.
\<close>

definition example_blank_request :: request where
  "example_blank_request = example_request\<lparr>params_prompt := [CHR 0x20, NL, CHR 0x20]\<rparr>"

definition example_fetch_error :: "nat \<Rightarrow> string" where
  "example_fetch_error attempt = ''TypeError: fetch failed''"

text \<open>
  The embedding endpoint answering every attempt with the status 429 and a JSON body that
  reports the error and has no \<open>data\<close>.
\<close>

definition example_too_many_requests ::
  "nat \<Rightarrow> string \<Rightarrow> string option \<Rightarrow> embedding_response fetch_result" where
  "example_too_many_requests attempt query key = Answered 429 (Inr NoData)"

section \<open>Properties of the context budget\<close>

lemma upt_from_1: "[1..<Suc (Suc n)] = 1 # map Suc [1..<Suc n]"
  by (simp add: map_Suc_upt upt_conv_Cons del: upt_Suc)

lemma running_total_Cons:
  "running_total (s # fs) (Suc j) = token_count s + running_total fs j"
  by (simp add: running_total_def)

lemma prefix_from_Cons:
  "prefix_from base (s # fs) =
     (if base + token_count s < CONTEXT_TOKENS_CUTOFF
      then Suc (prefix_from (base + token_count s) fs) else 0)"
proof -
  have "prefix_from base (s # fs) =
          length (takeWhile (\<lambda>j. base + running_total (s # fs) j < CONTEXT_TOKENS_CUTOFF)
                    (1 # map Suc [1..<Suc (length fs)]))"
    unfolding prefix_from_def by (simp only: length_Cons upt_from_1)
  also have "\<dots> = (if base + token_count s < CONTEXT_TOKENS_CUTOFF
                    then Suc (prefix_from (base + token_count s) fs) else 0)"
    unfolding prefix_from_def
    by (simp add: takeWhile_map comp_def running_total_Cons add.assoc running_total_def
          del: upt_Suc)
  finally show ?thesis .
qed

lemma context_loop_text:
  "contextText (context_loop fs acc) =
     contextText acc @ concat (map section_text (take (prefix_from (numTokens acc) fs) fs))"
proof (induction fs arbitrary: acc)
  case Nil
  show ?case by (simp add: prefix_from_def)
next
  case (Cons s fs)
  show ?case by (simp add: Let_def prefix_from_Cons Cons.IH)
qed

lemma context_loop_references:
  "references (context_loop fs acc) =
     foldl add_reference (references acc) (map path (take (prefix_from (numTokens acc) fs) fs))"
proof (induction fs arbitrary: acc)
  case Nil
  show ?case by (simp add: prefix_from_def)
next
  case (Cons s fs)
  show ?case by (simp add: Let_def prefix_from_Cons Cons.IH add_reference_def)
qed

lemma prefix_from_0: "prefix_from 0 fs = budget_prefix fs"
  by (simp add: prefix_from_def budget_prefix_def)

lemma build_context_text:
  "contextText (build_context fs) = concat (map section_text (take (budget_prefix fs) fs))"
  using context_loop_text [of fs context_init]
  by (simp add: build_context_def context_init_def prefix_from_0)

lemma build_context_references:
  "references (build_context fs) = foldl add_reference [] (map path (take (budget_prefix fs) fs))"
  using context_loop_references [of fs context_init]
  by (simp add: build_context_def context_init_def prefix_from_0)

lemma budget_prefix_le: "budget_prefix fs \<le> length fs"
proof -
  have "budget_prefix fs \<le> length [1..<Suc (length fs)]"
    unfolding budget_prefix_def by (rule length_takeWhile_le)
  then show ?thesis by (simp del: upt_Suc)
qed

lemma budget_prefix_below:
  assumes "1 \<le> j" and "j \<le> budget_prefix fs"
  shows "running_total fs j < CONTEXT_TOKENS_CUTOFF"
proof -
  let ?P = "\<lambda>j. running_total fs j < CONTEXT_TOKENS_CUTOFF"
  let ?xs = "[1..<Suc (length fs)]"
  have lt: "j - 1 < length (takeWhile ?P ?xs)"
    using assms by (simp add: budget_prefix_def)
  have "?P (takeWhile ?P ?xs ! (j - 1))"
    using lt by (metis nth_mem set_takeWhileD)
  moreover have "takeWhile ?P ?xs ! (j - 1) = ?xs ! (j - 1)"
    using lt by (rule takeWhile_nth)
  moreover have "j - 1 < length ?xs"
    using lt length_takeWhile_le [of ?P ?xs] by (rule less_le_trans)
  then have "?xs ! (j - 1) = j"
    using assms(1) by (simp add: nth_upt del: upt_Suc)
  ultimately show ?thesis by simp
qed

lemma budget_prefix_stop:
  assumes "budget_prefix fs < length fs"
  shows "CONTEXT_TOKENS_CUTOFF \<le> running_total fs (Suc (budget_prefix fs))"
proof -
  let ?P = "\<lambda>j. running_total fs j < CONTEXT_TOKENS_CUTOFF"
  let ?xs = "[1..<Suc (length fs)]"
  have lt: "length (takeWhile ?P ?xs) < length ?xs"
    using assms by (simp add: budget_prefix_def del: upt_Suc)
  then have "\<not> ?P (?xs ! length (takeWhile ?P ?xs))"
    by (rule nth_length_takeWhile)
  moreover have "?xs ! length (takeWhile ?P ?xs) = Suc (budget_prefix fs)"
    using lt by (simp add: budget_prefix_def nth_upt del: upt_Suc)
  ultimately show ?thesis by simp
qed

lemma budget_prefix_oversized:
  assumes "fs \<noteq> []" and "CONTEXT_TOKENS_CUTOFF \<le> token_count (hd fs)"
  shows "budget_prefix fs = 0"
proof -
  obtain s rest where fs: "fs = s # rest"
    using assms(1) by (cases fs) auto
  have "prefix_from 0 (s # rest) = 0"
    using assms(2) by (simp add: prefix_from_Cons fs)
  then show ?thesis by (simp add: prefix_from_0 fs)
qed

lemma budget_prefix_500_400_100:
  assumes "map token_count gs = [500, 400, 100]"
  shows "budget_prefix gs = 1"
proof -
  obtain a b c where gs: "gs = [a, b, c]"
    and t: "token_count a = 500" "token_count b = 400" "token_count c = 100"
    using assms by auto
  have "prefix_from 0 [a, b, c] = 1"
    by (simp add: prefix_from_Cons t CONTEXT_TOKENS_CUTOFF_def)
  then show ?thesis by (simp add: prefix_from_0 gs)
qed

text \<open>
  C3. For every ranked list of file sections, the assembled context text is the
  concatenation, in list order, of the trimmed content followed by the separator, over
  the longest prefix of the sections whose running token total stays strictly below the
  cutoff of 800 after each addition: the prefix has \<open>budget_prefix fs\<close> sections, every
  running total within it is below the cutoff, and the section after it, if there is one,
  takes the running total to the cutoff or beyond and contributes nothing. A first
  section of 800 tokens or more gives an empty context and no reference. For the token
  counts 500, 400, 100 the context is the text of the first section alone and the
  references are its path alone.
\<close>

theorem context_budget_prefix:
  "contextText (build_context fs) =
     concat (map (\<lambda>s. trim (content s) @ [NL] @ ''---'' @ [NL]) (take (budget_prefix fs) fs))
   \<and> budget_prefix fs \<le> length fs
   \<and> (\<forall>j. 1 \<le> j \<and> j \<le> budget_prefix fs \<longrightarrow> running_total fs j < 800)
   \<and> (budget_prefix fs < length fs \<longrightarrow> 800 \<le> running_total fs (Suc (budget_prefix fs)))
   \<and> (fs \<noteq> [] \<and> 800 \<le> token_count (hd fs) \<longrightarrow>
        contextText (build_context fs) = [] \<and> references (build_context fs) = [])
   \<and> (map token_count gs = [500, 400, 100] \<longrightarrow>
        contextText (build_context gs) = trim (content (hd gs)) @ [NL] @ ''---'' @ [NL]
        \<and> references (build_context gs) = [path (hd gs)])"
proof -
  have prefix: "contextText (build_context fs) =
      concat (map (\<lambda>s. trim (content s) @ [NL] @ ''---'' @ [NL]) (take (budget_prefix fs) fs))"
  proof -
    have "section_text = (\<lambda>s. trim (content s) @ [NL] @ ''---'' @ [NL])"
      by (rule ext) (simp add: section_text_def)
    then show ?thesis using build_context_text [of fs] by simp
  qed
  have below: "\<forall>j. 1 \<le> j \<and> j \<le> budget_prefix fs \<longrightarrow> running_total fs j < 800"
    using budget_prefix_below [of _ fs] by (simp add: CONTEXT_TOKENS_CUTOFF_def)
  have stop: "budget_prefix fs < length fs \<longrightarrow> 800 \<le> running_total fs (Suc (budget_prefix fs))"
    using budget_prefix_stop [of fs] by (simp add: CONTEXT_TOKENS_CUTOFF_def)
  have oversized: "fs \<noteq> [] \<and> 800 \<le> token_count (hd fs) \<longrightarrow>
      contextText (build_context fs) = [] \<and> references (build_context fs) = []"
    using budget_prefix_oversized [of fs]
    by (simp add: build_context_text build_context_references CONTEXT_TOKENS_CUTOFF_def)
  have example: "map token_count gs = [500, 400, 100] \<longrightarrow>
      contextText (build_context gs) = trim (content (hd gs)) @ [NL] @ ''---'' @ [NL]
      \<and> references (build_context gs) = [path (hd gs)]"
  proof
    assume h: "map token_count gs = [500, 400, 100]"
    then obtain a rest where gs: "gs = a # rest" by auto
    show "contextText (build_context gs) = trim (content (hd gs)) @ [NL] @ ''---'' @ [NL]
      \<and> references (build_context gs) = [path (hd gs)]"
      using budget_prefix_500_400_100 [OF h]
      by (simp add: build_context_text build_context_references gs section_text_def
            add_reference_def)
  qed
  note le = budget_prefix_le [of fs]
  show ?thesis
    using prefix le below stop oversized example by - (intro conjI; assumption)
qed

theorem context_budget_prefix_witness:
  "map token_count example_sections = [500, 400, 100]
   \<and> contextText (build_context example_sections) =
       ''Refunds within 30 days.'' @ [NL] @ ''---'' @ [NL]
   \<and> references (build_context example_sections) = [''docs/a.md'']"
proof -
  have h: "map token_count example_sections = [500, 400, 100]"
    by (simp add: example_sections_def)
  have t: "trim (content (hd example_sections)) = ''Refunds within 30 days.''"
    by (simp add: example_sections_def trim_def isWhiteSpace_def)
  have p: "path (hd example_sections) = ''docs/a.md''"
    by (simp add: example_sections_def)
  have "map token_count example_sections = [500, 400, 100] \<longrightarrow>
      contextText (build_context example_sections) =
        trim (content (hd example_sections)) @ [NL] @ ''---'' @ [NL]
      \<and> references (build_context example_sections) = [path (hd example_sections)]"
    by (rule context_budget_prefix [of example_sections example_sections,
          THEN conjunct2, THEN conjunct2, THEN conjunct2, THEN conjunct2, THEN conjunct2])
  with h t p show ?thesis by simp
qed

section \<open>Properties of the stream transformer\<close>

lemmas stream_eval =
  start_def stream_init_def controller_close_def onParse_def onParse_try_def enqueue_def
  controller_error_def getChunkText_def bind_err_def encode_input_def Let_def
  example_externals_def example_model_def example_JSON_parse_def completion_data_def
  completion_json_def NL_def


lemma onParse_not_data: "\<not> is_data_event ev \<Longrightarrow> onParse I model refs st ev = st"
  by (cases ev) (simp_all add: onParse_def is_data_event_def)

lemma onParse_try_header:
  assumes "header_inv refs (STREAM_SEPARATOR I) st"
  shows "case onParse_try I model refs d st of
           Inl s \<Rightarrow> didSendHeader s \<and> header_inv refs (STREAM_SEPARATOR I) s
         | Inr s \<Rightarrow> didSendHeader s \<and> header_inv refs (STREAM_SEPARATOR I) s"
  using assms
  unfolding onParse_try_def header_inv_def enqueue_def Let_def
  by (auto simp: is_content_def split: sum.splits option.splits if_splits bool.splits)

lemma onParse_data_header:
  assumes "header_inv refs (STREAM_SEPARATOR I) st" and "is_data_event ev"
  shows "didSendHeader (onParse I model refs st ev)
         \<and> header_inv refs (STREAM_SEPARATOR I) (onParse I model refs st ev)"
proof -
  obtain d where ev: "ev = Event d" and d: "d \<noteq> ''[DONE]''"
    using assms(2) by (cases ev) (auto simp: is_data_event_def)
  have err: "\<And>s. didSendHeader s \<and> header_inv refs (STREAM_SEPARATOR I) s \<Longrightarrow>
      didSendHeader (controller_error s)
      \<and> header_inv refs (STREAM_SEPARATOR I) (controller_error s)"
    by (auto simp: controller_error_def header_inv_def)
  show ?thesis
    using onParse_try_header [OF assms(1), of model d] err
    by (auto simp: ev d onParse_def split: sum.splits)
qed

lemma foldl_onParse_header:
  assumes "header_inv refs (STREAM_SEPARATOR I) st"
  shows "header_inv refs (STREAM_SEPARATOR I) (foldl (onParse I model refs) st events)
         \<and> (didSendHeader (foldl (onParse I model refs) st events)
              \<longleftrightarrow> didSendHeader st \<or> list_ex is_data_event events)"
  using assms
proof (induction events arbitrary: st)
  case Nil
  then show ?case by simp
next
  case (Cons ev events)
  show ?case
  proof (cases "is_data_event ev")
    case True
    from onParse_data_header [OF Cons.prems True, of model]
    have h: "didSendHeader (onParse I model refs st ev)"
      and i: "header_inv refs (STREAM_SEPARATOR I) (onParse I model refs st ev)"
      by simp_all
    from Cons.IH [OF i] h True show ?thesis by simp
  next
    case False
    then have "onParse I model refs st ev = st" by (rule onParse_not_data)
    with Cons.IH [OF Cons.prems] False show ?thesis by simp
  qed
qed

lemma list_all_is_content: "list_all is_content fs \<Longrightarrow> \<exists>texts. fs = map ContentFrame texts"
proof (induction fs)
  case Nil
  show ?case by simp
next
  case (Cons f fs)
  then obtain texts where "fs = map ContentFrame texts" by auto
  moreover obtain t where "f = ContentFrame t"
    using Cons.prems by (cases f) (auto simp: is_content_def)
  ultimately have "f # fs = map ContentFrame (t # texts)" by simp
  then show ?case by (rule exI)
qed


text \<open>
  C1, as the code has it. For every upstream event sequence, the references frame is
  emitted at most once and before every content frame: when the upstream delivers at
  least one event other than the sentinel, the accepted chunks are the references frame
  followed by content frames only; when it delivers no such event (only the sentinel,
  or nothing), no references frame is emitted at all and the stream closes empty.
\<close>

theorem references_frame_first:
  "if list_ex is_data_event events
   then \<exists>texts. enqueued (start I model refs fullPrompt events) =
          ReferencesFrame refs (STREAM_SEPARATOR I) # map ContentFrame texts
   else enqueued (start I model refs fullPrompt events) = []
        \<and> controller (start I model refs fullPrompt events) = Closed"
proof -
  let ?st = "foldl (onParse I model refs) (stream_init fullPrompt) events"
  have init: "header_inv refs (STREAM_SEPARATOR I) (stream_init fullPrompt)"
    by (simp add: header_inv_def stream_init_def)
  note inv = foldl_onParse_header [OF init, of model events]
  have sent: "didSendHeader ?st \<longleftrightarrow> list_ex is_data_event events"
    using inv by (simp add: stream_init_def)
  have out: "enqueued (start I model refs fullPrompt events) = enqueued ?st"
    by (simp add: start_def controller_close_def)
  show ?thesis
  proof (cases "list_ex is_data_event events")
    case True
    with sent inv obtain rest
      where "enqueued ?st = ReferencesFrame refs (STREAM_SEPARATOR I) # rest"
        and "list_all is_content rest"
      by (auto simp: header_inv_def)
    with list_all_is_content [of rest] out True show ?thesis by auto
  next
    case False
    with sent inv have "enqueued ?st = []" and "controller ?st = Readable"
      by (auto simp: header_inv_def)
    then have "enqueued (start I model refs fullPrompt events) = []"
      and "controller (start I model refs fullPrompt events) = Closed"
      by (simp_all add: start_def controller_close_def)
    with False show ?thesis by simp
  qed
qed

theorem references_frame_first_witness:
  "\<exists>texts. enqueued (start example_externals example_model [''docs/a.md''] ''prompt''
       example_events) =
     ReferencesFrame [''docs/a.md''] ''___START_RESPONSE_STREAM___'' # map ContentFrame texts"
  using references_frame_first [of example_events example_externals example_model
      "[''docs/a.md'']" "''prompt''"]
  by (simp add: example_events_def is_data_event_def completion_data_def example_externals_def)

text \<open>
  C1 as stated fails: when the upstream delivers the sentinel and nothing else, the
  stream closes with no chunk accepted, so without a references frame.
\<close>

theorem references_frame_missing:
  "enqueued (start example_externals example_model [''docs/a.md''] ''prompt''
      [Event ''[DONE]'']) = []
   \<and> controller (start example_externals example_model [''docs/a.md''] ''prompt''
      [Event ''[DONE]'']) = Closed"
  by (simp add: stream_eval)

text \<open>
  C2. The transformer on two chunk sequences. On the line feed, two line feeds,
  \<open>Hello\<close>, \<open> world\<close> it forwards \<open>Hello\<close> and \<open> world\<close> after the references frame. On
  a first chunk \<open>Hello.\<close> followed by a line feed, then \<open> world\<close>, it forwards \<open> world\<close>
  alone: the first chunk, which has text besides its line feed, is dropped.
\<close>

theorem newline_chunk_dropped:
  "enqueued (start example_externals example_model [''docs/a.md''] ''prompt'' example_events) =
     [ReferencesFrame [''docs/a.md''] ''___START_RESPONSE_STREAM___'',
      ContentFrame ''Hello'', ContentFrame '' world'']
   \<and> enqueued (start example_externals example_model [''docs/a.md''] ''prompt''
        [Event (completion_data (''Hello.'' @ [CHR 0x5C, CHR ''n''])),
         Event (completion_data '' world''),
         Event ''[DONE]'']) =
     [ReferencesFrame [''docs/a.md''] ''___START_RESPONSE_STREAM___'', ContentFrame '' world'']"
  by (simp add: stream_eval example_events_def)




section \<open>Properties of the handler\<close>

lemma rate_limited_admit:
  assumes "\<not> success (result (checkCompletionsRateLimits S projectId))"
  shows "handler_admit I S model idk prompt projectId =
           ([RateLimitCall projectId], text_response ''Too many requests'' 429)"
  using assms by (simp add: handler_admit_def after_def)

text \<open>
  C4, as the code has it. For every request whose project the rate limiter refuses, the
  handler makes no call other than the rate-limit check: no moderation call, no embedding
  call, no retrieval call and no completion call. A request that reaches the check (a
  POST with a project and a prompt) gets the status 429 with the fixed plain-text body
  \<open>Too many requests\<close>, which names no retry window.
\<close>

theorem rate_limited_stops:
  assumes "projectIdParam req = Some projectId"
    and "\<not> success (result (checkCompletionsRateLimits S projectId))"
  shows "(req_method req = ''POST'' \<and> projectId \<noteq> []
            \<and> substring0 (MAX_PROMPT_LENGTH I) (params_prompt req) \<noteq> [] \<longrightarrow>
          handler I S req =
            ([RateLimitCall projectId], text_response ''Too many requests'' 429))
         \<and> set (fst (handler I S req)) \<subseteq> {RateLimitCall projectId}"
  using assms by (simp add: handler_def Let_def rate_limited_admit)

lemma projectIdParam_example: "projectIdParam example_request = Some ''acme''"
  by (simp add: projectIdParam_def example_request_def slice_last_def)

lemmas example_eval =
  example_request_def example_externals_def example_services_def example_rate_limit_def
  example_getOpenAIKey_def example_moderation_def example_stringToModel_def
  example_model_def substring0_def

theorem rate_limited_stops_witness:
  "handler example_externals
     (example_services\<lparr>checkCompletionsRateLimits := example_rate_limit False 1 30\<rparr>)
     example_request =
   ([RateLimitCall ''acme''], text_response ''Too many requests'' 429)"
proof -
  let ?S = "example_services\<lparr>checkCompletionsRateLimits := example_rate_limit False 1 30\<rparr>"
  have a: "\<not> success (result (checkCompletionsRateLimits ?S ''acme''))"
    by (simp add: example_rate_limit_def)
  have b: "req_method example_request = ''POST'' \<and> ''acme'' \<noteq> []
      \<and> substring0 (MAX_PROMPT_LENGTH example_externals) (params_prompt example_request) \<noteq> []"
    by (simp add: example_eval)
  from rate_limited_stops [OF projectIdParam_example a, of example_externals] b
  show ?thesis by simp
qed

text \<open>
  C4 as stated fails: the 429 response has the same body whatever retry window the rate
  limiter reports (one hour and thirty minutes, or five minutes), so it tells no window.
\<close>

theorem rate_limited_no_retry_window:
  "snd (handler example_externals
     (example_services\<lparr>checkCompletionsRateLimits := example_rate_limit False 1 30\<rparr>)
     example_request) =
     Returned \<lparr>status = 429, headers = [], body = Text ''Too many requests''\<rparr>
   \<and> snd (handler example_externals
     (example_services\<lparr>checkCompletionsRateLimits := example_rate_limit False 0 5\<rparr>)
     example_request) =
     Returned \<lparr>status = 429, headers = [], body = Text ''Too many requests''\<rparr>"
  by (simp add: handler_def handler_admit_def after_def text_response_def Let_def
        projectIdParam_def slice_last_def example_eval)

text \<open>
  The flagged branch, for every request that passed validation and the rate limit: the
  handler throws the error \<open>Flagged content\<close> after the rate-limit check, the key lookup
  and the moderation call, and returns no response.
\<close>

lemma flagged_throws:
  assumes "req_method req = ''POST''"
    and "projectIdParam req = Some projectId" and "projectId \<noteq> []"
    and "substring0 (MAX_PROMPT_LENGTH I) (params_prompt req) = prompt" and "prompt \<noteq> []"
    and "success (result (checkCompletionsRateLimits S projectId))"
    and "flagged (createModeration S (replaceAll_nl (trim prompt)) (getOpenAIKey S projectId))"
  shows "handler I S req =
           ([RateLimitCall projectId, OpenAIKeyCall projectId,
             ModerationCall (replaceAll_nl (trim prompt)) (getOpenAIKey S projectId)],
            Thrown ''Error: Flagged content'')"
  using assms by (simp add: handler_def handler_admit_def after_def Let_def)

lemma flagged_throws_example:
  "handler example_externals (example_services\<lparr>createModeration := example_moderation True\<rparr>)
     example_request =
   ([RateLimitCall ''acme'', OpenAIKeyCall ''acme'',
     ModerationCall ''What is the refund policy?'' None],
    Thrown ''Error: Flagged content'')"
proof -
  let ?S = "example_services\<lparr>createModeration := example_moderation True\<rparr>"
  have p: "substring0 (MAX_PROMPT_LENGTH example_externals) (params_prompt example_request) =
      ''What is the refund policy?''"
    by (simp add: example_eval)
  have q: "replaceAll_nl (trim ''What is the refund policy?'') = ''What is the refund policy?''"
    by (simp add: replaceAll_nl_def trim_def isWhiteSpace_def NL_def)
  have m: "req_method example_request = ''POST''" by (simp add: example_eval)
  have r: "success (result (checkCompletionsRateLimits ?S ''acme''))"
    by (simp add: example_eval)
  have k: "getOpenAIKey ?S ''acme'' = None" by (simp add: example_eval)
  have f: "flagged (createModeration ?S (replaceAll_nl (trim ''What is the refund policy?''))
      (getOpenAIKey ?S ''acme''))"
    by (simp add: example_eval flagged_def)
  from flagged_throws [OF m projectIdParam_example _ p _ r f] q k show ?thesis by simp
qed

text \<open>
  C5. The handler on a query that moderation flags: after the rate-limit check, the key
  lookup and the moderation call it makes no embedding call and opens no stream, but it
  returns no 400 response either: it throws the error \<open>Flagged content\<close>, where every
  other failure of the handler returns a plain-text response with its status.
\<close>

theorem flagged_not_400:
  "handler example_externals
     (example_services\<lparr>createModeration := example_moderation True\<rparr>) example_request =
   ([RateLimitCall ''acme'', OpenAIKeyCall ''acme'',
     ModerationCall ''What is the refund policy?'' None],
    Thrown ''Error: Flagged content'')"
  by (simp add: handler_def handler_admit_def after_def Let_def flagged_def
        projectIdParam_def slice_last_def example_eval replaceAll_nl_def trim_def
        isWhiteSpace_def NL_def)

lemma text_response_headers: "text_response message code = Returned r \<Longrightarrow> headers r = []"
  by (auto simp: text_response_def)

lemma handler_stream_headers:
  "snd (handler_stream I S model idk q fs) = Returned r \<Longrightarrow> headers r = []"
  by (auto simp: handler_stream_def Let_def)

lemma handler_retrieve_headers:
  "snd (handler_retrieve I S model idk q pid e) = Returned r \<Longrightarrow> headers r = []"
  by (auto simp: handler_retrieve_def Let_def after_def
        dest: text_response_headers handler_stream_headers split: option.splits if_splits)

lemma handler_embed_headers:
  "snd (handler_embed I S model idk prompt q pid key) = Returned r \<Longrightarrow> headers r = []"
  by (auto simp: handler_embed_def Let_def after_def
        dest: text_response_headers handler_retrieve_headers
        split: option.splits if_splits prod.splits sum.splits)

lemma handler_admit_headers:
  "snd (handler_admit I S model idk prompt pid) = Returned r \<Longrightarrow> headers r = []"
  by (auto simp: handler_admit_def Let_def after_def
        dest: text_response_headers handler_embed_headers split: if_splits)

lemma handler_headers: "snd (handler I S req) = Returned r \<Longrightarrow> headers r = []"
  by (auto simp: handler_def Let_def
        dest: text_response_headers handler_admit_headers split: if_splits option.splits)

lemma createEmbedding_limiter:
  "createEmbedding (S\<lparr>checkCompletionsRateLimits := f\<rparr>) = createEmbedding S"
  by (intro ext) (simp add: createEmbedding_def)

lemma handler_stream_limiter:
  "handler_stream I (S\<lparr>checkCompletionsRateLimits := f\<rparr>) = handler_stream I S"
  by (intro ext) (simp add: handler_stream_def)

lemma handler_retrieve_limiter:
  "handler_retrieve I (S\<lparr>checkCompletionsRateLimits := f\<rparr>) = handler_retrieve I S"
  by (intro ext)
     (simp add: handler_retrieve_def handler_stream_limiter cong: option.case_cong if_cong)

lemma handler_embed_limiter:
  "handler_embed I (S\<lparr>checkCompletionsRateLimits := f\<rparr>) = handler_embed I S"
  by (intro ext)
     (simp add: handler_embed_def handler_retrieve_limiter createEmbedding_limiter
        cong: option.case_cong prod.case_cong sum.case_cong)

lemma handler_admit_limiter:
  assumes "success (result (f projectId)) =
           success (result (checkCompletionsRateLimits S projectId))"
  shows "handler_admit I (S\<lparr>checkCompletionsRateLimits := f\<rparr>) model idk prompt projectId =
         handler_admit I S model idk prompt projectId"
  using assms by (simp add: handler_admit_def handler_embed_limiter cong: if_cong)

lemma handler_limiter:
  assumes "\<forall>p. success (result (f p)) = success (result (checkCompletionsRateLimits S p))"
  shows "handler I (S\<lparr>checkCompletionsRateLimits := f\<rparr>) req = handler I S req"
  using assms by (simp add: handler_def handler_admit_limiter cong: option.case_cong if_cong)

lemma handler_values: "handler I (with_rate_limit_values l m S) req = handler I S req"
  unfolding with_rate_limit_values_def by (rule handler_limiter) simp

text \<open>
  C7, as the code has it. Every response the handler returns, the successful stream
  response included, is built without any header, and the \<open>limit\<close> and \<open>remaining\<close>
  values of the rate limiter never reach a response: with other values in their place
  the handler makes the same calls and gives the same outcome. The handler reads the
  success flag of the rate limiter and nothing else of it: two rate limiters that agree
  on the flag give the same calls and the same outcome.
\<close>

theorem rate_limit_values_unused:
  "(\<forall>r. snd (handler I S req) = Returned r \<longrightarrow> headers r = [])
   \<and> handler I (with_rate_limit_values l m S) req = handler I S req
   \<and> ((\<forall>p. success (result (f p)) = success (result (checkCompletionsRateLimits S p))) \<longrightarrow>
        handler I (S\<lparr>checkCompletionsRateLimits := f\<rparr>) req = handler I S req)"
  using handler_headers [of I S req] handler_values [of I l m S req]
    handler_limiter [of f S I req]
  by simp

lemma backOff_first_attempt:
  assumes "request 0 = Inr v" and "0 < numOfAttempts options"
  shows "backOff c request options 0 = ([c], Inr v)"
  using assms by (simp add: backOff.simps [of c request options 0])

lemma build_context_example:
  "build_context example_sections =
     \<lparr>numTokens = 900,
      contextText = ''Refunds within 30 days.'' @ [NL] @ ''---'' @ [NL],
      references = [''docs/a.md'']\<rparr>"
  by (simp add: build_context_def context_init_def example_sections_def section_text_def
        trim_def isWhiteSpace_def CONTEXT_TOKENS_CUTOFF_def)

lemma start_example:
  "start example_externals example_model [''docs/a.md''] fullPrompt example_events =
     \<lparr>counter = 2,
      allText = fullPrompt @ [NL] @ [NL, NL] @ ''Hello'' @ '' world'',
      didSendHeader = True, controller = Closed,
      enqueued = [ReferencesFrame [''docs/a.md''] ''___START_RESPONSE_STREAM___'',
                  ContentFrame ''Hello'', ContentFrame '' world'']\<rparr>"
  by (simp add: stream_eval example_events_def)

lemma handler_stream_example:
  "snd (handler_stream example_externals example_services example_model idk q example_sections) =
     Returned \<lparr>status = 200, headers = [],
       body = Stream [ReferencesFrame [''docs/a.md''] ''___START_RESPONSE_STREAM___'',
                      ContentFrame ''Hello'', ContentFrame '' world''] Closed\<rparr>"
proof -
  have "fetch_completions example_services = (\<lambda>p. example_events)"
    by (rule ext) (simp add: example_services_def example_completions_def)
  then show ?thesis
    by (simp add: handler_stream_def Let_def build_context_example start_example)
qed

lemma handler_example_outcome:
  "snd (handler example_externals example_services example_request) =
     Returned \<lparr>status = 200, headers = [],
       body = Stream [ReferencesFrame [''docs/a.md''] ''___START_RESPONSE_STREAM___'',
                      ContentFrame ''Hello'', ContentFrame '' world''] Closed\<rparr>"
proof -
  have e: "backOff (EmbeddingCall q None)
      (\<lambda>attempt. createEmbedding example_services attempt q None)
      \<lparr>startingDelay = 10000, numOfAttempts = 10\<rparr> 0 =
      ([EmbeddingCall q None], Inr (Data [[1 / 2, 1 / 4]]))" for q
    by (rule backOff_first_attempt)
       (simp_all add: createEmbedding_def example_services_def example_fetch_embeddings_def)
  have s: "stringToModel example_externals m = example_model" for m
    by (simp add: example_externals_def example_stringToModel_def)
  have r: "match_file_sections example_services p v t c l =
      \<lparr>rpc_error = None, rpc_data = Some example_sections\<rparr>" for p v t c l
    by (simp add: example_services_def example_retrieval_def)
  have n: "example_sections \<noteq> []" by (simp add: example_sections_def)
  have a: "snd (handler_admit example_externals example_services example_model idk
      ''What is the refund policy?'' ''acme'') =
     Returned \<lparr>status = 200, headers = [],
       body = Stream [ReferencesFrame [''docs/a.md''] ''___START_RESPONSE_STREAM___'',
                      ContentFrame ''Hello'', ContentFrame '' world''] Closed\<rparr>" for idk
  proof -
    have k: "getOpenAIKey example_services ''acme'' = None"
      and l: "success (result (checkCompletionsRateLimits example_services ''acme''))"
      and f: "\<not> flagged (createModeration example_services q None)" for q
      by (simp_all add: example_services_def example_getOpenAIKey_def example_rate_limit_def
            example_moderation_def flagged_def)
    show ?thesis
      by (simp add: handler_admit_def handler_embed_def handler_retrieve_def Let_def after_def
            k l f e r n promptEmbedding_def handler_stream_example)
  qed
  have p: "substring0 (MAX_PROMPT_LENGTH example_externals) (params_prompt example_request) =
      ''What is the refund policy?''"
    and m: "req_method example_request = ''POST''"
    by (simp_all add: example_request_def example_externals_def substring0_def)
  show ?thesis
    by (simp add: handler_def Let_def projectIdParam_example s a p m)
qed

theorem rate_limit_values_unused_witness:
  "\<exists>r. snd (handler example_externals example_services example_request) = Returned r
        \<and> headers r = []"
  using rate_limit_values_unused [of example_externals example_services example_request]
    handler_example_outcome by simp

text \<open>
  C7 as stated fails: a successful response has no header at all, while the rate limiter
  reported a limit of 100 and 99 remaining.
\<close>

theorem success_without_rate_limit_headers:
  "snd (handler example_externals example_services example_request) =
     Returned \<lparr>status = 200, headers = [],
       body = Stream [ReferencesFrame [''docs/a.md''] ''___START_RESPONSE_STREAM___'',
                      ContentFrame ''Hello'', ContentFrame '' world''] Closed\<rparr>
   \<and> limit (result (checkCompletionsRateLimits example_services ''acme'')) = 100
   \<and> remaining (result (checkCompletionsRateLimits example_services ''acme'')) = 99"
  using handler_example_outcome by (simp add: example_services_def example_rate_limit_def)

lemma handler_stream_status:
  "snd (handler_stream I S model idk q fs) \<noteq> text_response message 400"
  by (simp add: handler_stream_def Let_def text_response_def)

lemma handler_retrieve_not_missing_prompt:
  "snd (handler_retrieve I S model idk q pid e) \<noteq> text_response ''No prompt provided'' 400"
  using handler_stream_status [of I S model idk q _ "''No prompt provided''"]
  by (simp add: handler_retrieve_def Let_def after_def text_response_def
        split: option.splits)

lemma handler_embed_not_missing_prompt:
  "snd (handler_embed I S model idk prompt q pid key) \<noteq> text_response ''No prompt provided'' 400"
  using handler_retrieve_not_missing_prompt [of I S model idk q pid]
  by (simp add: handler_embed_def after_def text_response_def
        split: option.splits prod.splits sum.splits)

lemma handler_admit_not_missing_prompt:
  "snd (handler_admit I S model idk prompt pid) \<noteq> text_response ''No prompt provided'' 400"
  using handler_embed_not_missing_prompt [of I S model idk prompt _ pid]
  by (simp add: handler_admit_def Let_def after_def text_response_def)

lemma trim_white_space:
  assumes "list_all isWhiteSpace s"
  shows "trim s = []"
proof -
  have d: "dropWhile isWhiteSpace s = []"
    using assms by (simp add: dropWhile_eq_Nil_conv list_all_iff)
  show ?thesis unfolding trim_def d by simp
qed

lemma handler_valid:
  assumes "req_method req = ''POST''" and "projectIdParam req = Some projectId"
    and "projectId \<noteq> []" and "substring0 (MAX_PROMPT_LENGTH I) (params_prompt req) \<noteq> []"
  shows "handler I S req =
           handler_admit I S (stringToModel I (params_model req))
             (case params_iDontKnowMessage req of
                None \<Rightarrow> I_DONT_KNOW I
              | Some m \<Rightarrow> if m = [] then I_DONT_KNOW I else m)
             (substring0 (MAX_PROMPT_LENGTH I) (params_prompt req)) projectId"
  using assms by (simp add: handler_def Let_def)

lemma handler_admit_allowed:
  assumes "success (result (checkCompletionsRateLimits S projectId))"
  shows "take 3 (fst (handler_admit I S model idk prompt projectId)) =
           [RateLimitCall projectId, OpenAIKeyCall projectId,
            ModerationCall (replaceAll_nl (trim prompt)) (getOpenAIKey S projectId)]"
  using assms by (simp add: handler_admit_def Let_def after_def)

text \<open>
  C10. The response 400 \<open>No prompt provided\<close> is given exactly when the request is a POST
  with a project and its prompt, cut to the maximum prompt length, is the empty string.
  A prompt of white space only (with a positive maximum length) passes this check: the
  sanitized query is then the empty string, and if the rate limiter admits the request
  the moderation call is made with that empty query.
\<close>

theorem missing_prompt_exactly:
  "(snd (handler I S req) = text_response ''No prompt provided'' 400 \<longleftrightarrow>
      req_method req = ''POST''
      \<and> (\<exists>p. projectIdParam req = Some p \<and> p \<noteq> [])
      \<and> substring0 (MAX_PROMPT_LENGTH I) (params_prompt req) = [])
   \<and> (req_method req = ''POST'' \<and> projectIdParam req = Some projectId \<and> projectId \<noteq> []
        \<and> params_prompt req \<noteq> [] \<and> list_all isWhiteSpace (params_prompt req)
        \<and> 0 < MAX_PROMPT_LENGTH I \<longrightarrow>
      snd (handler I S req) \<noteq> text_response ''No prompt provided'' 400
      \<and> replaceAll_nl (trim (substring0 (MAX_PROMPT_LENGTH I) (params_prompt req))) = []
      \<and> (success (result (checkCompletionsRateLimits S projectId)) \<longrightarrow>
           take 3 (fst (handler I S req)) =
             [RateLimitCall projectId, OpenAIKeyCall projectId,
              ModerationCall [] (getOpenAIKey S projectId)]))"
proof -
  have iff: "snd (handler I S req) = text_response ''No prompt provided'' 400 \<longleftrightarrow>
      req_method req = ''POST''
      \<and> (\<exists>p. projectIdParam req = Some p \<and> p \<noteq> [])
      \<and> substring0 (MAX_PROMPT_LENGTH I) (params_prompt req) = []"
    using handler_admit_not_missing_prompt [of I S]
    by (auto simp: handler_def Let_def text_response_def split: option.splits)
  have ws: "req_method req = ''POST'' \<and> projectIdParam req = Some projectId \<and> projectId \<noteq> []
        \<and> params_prompt req \<noteq> [] \<and> list_all isWhiteSpace (params_prompt req)
        \<and> 0 < MAX_PROMPT_LENGTH I \<longrightarrow>
      snd (handler I S req) \<noteq> text_response ''No prompt provided'' 400
      \<and> replaceAll_nl (trim (substring0 (MAX_PROMPT_LENGTH I) (params_prompt req))) = []
      \<and> (success (result (checkCompletionsRateLimits S projectId)) \<longrightarrow>
           take 3 (fst (handler I S req)) =
             [RateLimitCall projectId, OpenAIKeyCall projectId,
              ModerationCall [] (getOpenAIKey S projectId)])"
  proof (intro impI, elim conjE)
    let ?prompt = "substring0 (MAX_PROMPT_LENGTH I) (params_prompt req)"
    assume a: "req_method req = ''POST''" "projectIdParam req = Some projectId"
      "projectId \<noteq> []" "params_prompt req \<noteq> []" "list_all isWhiteSpace (params_prompt req)"
      "0 < MAX_PROMPT_LENGTH I"
    have ne: "?prompt \<noteq> []" using a(4,6) by (simp add: substring0_def)
    have "list_all isWhiteSpace ?prompt"
      using a(5) by (auto simp: substring0_def list_all_iff dest: in_set_takeD)
    then have q: "replaceAll_nl (trim ?prompt) = []"
      by (simp add: trim_white_space replaceAll_nl_def)
    note v = handler_valid [OF a(1,2,3) ne, of S]
    have "snd (handler I S req) \<noteq> text_response ''No prompt provided'' 400"
      unfolding v by (rule handler_admit_not_missing_prompt)
    moreover have "success (result (checkCompletionsRateLimits S projectId)) \<longrightarrow>
           take 3 (fst (handler I S req)) =
             [RateLimitCall projectId, OpenAIKeyCall projectId,
              ModerationCall [] (getOpenAIKey S projectId)]"
      unfolding v using q by (simp add: handler_admit_allowed)
    ultimately show "snd (handler I S req) \<noteq> text_response ''No prompt provided'' 400
      \<and> replaceAll_nl (trim ?prompt) = []
      \<and> (success (result (checkCompletionsRateLimits S projectId)) \<longrightarrow>
           take 3 (fst (handler I S req)) =
             [RateLimitCall projectId, OpenAIKeyCall projectId,
              ModerationCall [] (getOpenAIKey S projectId)])"
      using q by simp
  qed
  from iff ws show ?thesis by (rule conjI)
qed

theorem missing_prompt_exactly_witness:
  "snd (handler example_externals example_services example_blank_request) \<noteq>
     text_response ''No prompt provided'' 400
   \<and> take 3 (fst (handler example_externals example_services example_blank_request)) =
       [RateLimitCall ''acme'', OpenAIKeyCall ''acme'', ModerationCall [] None]"
proof -
  have p: "projectIdParam example_blank_request = Some ''acme''"
    by (simp add: projectIdParam_def example_blank_request_def example_request_def
          slice_last_def)
  have h: "req_method example_blank_request = ''POST''
      \<and> projectIdParam example_blank_request = Some ''acme'' \<and> ''acme'' \<noteq> []
      \<and> params_prompt example_blank_request \<noteq> []
      \<and> list_all isWhiteSpace (params_prompt example_blank_request)
      \<and> 0 < MAX_PROMPT_LENGTH example_externals"
    by (simp add: p)
       (simp add: example_blank_request_def example_request_def example_externals_def
          isWhiteSpace_def NL_def)
  have s: "success (result (checkCompletionsRateLimits example_services ''acme''))"
    and k: "getOpenAIKey example_services ''acme'' = None"
    by (simp_all add: example_services_def example_rate_limit_def example_getOpenAIKey_def)
  from missing_prompt_exactly [of example_externals example_services example_blank_request
      "''acme''", THEN conjunct2] h s k
  show ?thesis by simp
qed

lemma handler_stream_calls:
  "map stage_of (fst (handler_stream I S model idk q fs)) = [Completion]"
  by (simp add: handler_stream_def Let_def)

lemma handler_retrieve_calls:
  "\<exists>post. fst (handler_retrieve I S model idk q pid e) =
            RetrievalCall pid e match_threshold match_count min_content_length # post
          \<and> (map stage_of post = [] \<or> map stage_of post = [Completion])"
  using handler_stream_calls [of I S model idk q]
  by (auto simp: handler_retrieve_def Let_def after_def split: option.splits)

lemma handler_retrieve_empty:
  assumes "rpc_data (match_file_sections S pid e match_threshold match_count min_content_length) = None
           \<or> rpc_data (match_file_sections S pid e match_threshold match_count min_content_length) = Some []"
  shows "fst (handler_retrieve I S model idk q pid e) = [RetrievalCall pid e match_threshold match_count min_content_length]
         \<and> (\<exists>message. snd (handler_retrieve I S model idk q pid e) = text_response message 400)
         \<and> (rpc_error (match_file_sections S pid e match_threshold match_count min_content_length) = None \<longrightarrow>
              snd (handler_retrieve I S model idk q pid e) =
                text_response ''No relevant sections found'' 400)"
  using assms by (auto simp: handler_retrieve_def Let_def after_def split: option.splits)

lemma backOff_shape:
  "\<exists>k. fst (backOff c request options attempt) =
          concat (map (backoff_step c (startingDelay options)) [attempt..<attempt + k])
        \<and> attempt + k \<le> max attempt (numOfAttempts options)"
proof (induction c request options attempt rule: backOff.induct)
  case (1 c request options attempt)
  let ?step = "backoff_step c (startingDelay options)"
  show ?case
  proof (cases "attempt < numOfAttempts options")
    case False
    then have "fst (backOff c request options attempt) = []"
      by (simp add: backOff.simps [of c request options attempt])
    then have "fst (backOff c request options attempt) =
        concat (map ?step [attempt..<attempt + 0])
        \<and> attempt + 0 \<le> max attempt (numOfAttempts options)" by simp
    then show ?thesis by (rule exI)
  next
    case lt: True
    have one: "concat (map ?step [attempt..<attempt + 1]) = ?step attempt" by simp
    show ?thesis
    proof (cases "request attempt")
      case (Inr v)
      with lt have "fst (backOff c request options attempt) = ?step attempt"
        by (simp add: backOff.simps [of c request options attempt] Let_def backoff_step_def)
      with one lt have "fst (backOff c request options attempt) =
          concat (map ?step [attempt..<attempt + 1])
          \<and> attempt + 1 \<le> max attempt (numOfAttempts options)" by simp
      then show ?thesis by (rule exI)
    next
      case (Inl e)
      show ?thesis
      proof (cases "Suc attempt \<ge> numOfAttempts options")
        case True
        with lt Inl have "fst (backOff c request options attempt) = ?step attempt"
          by (simp add: backOff.simps [of c request options attempt] Let_def backoff_step_def)
        with one lt have "fst (backOff c request options attempt) =
            concat (map ?step [attempt..<attempt + 1])
            \<and> attempt + 1 \<le> max attempt (numOfAttempts options)" by simp
        then show ?thesis by (rule exI)
      next
        case False
        from "1.IH" [OF lt refl Inl False]
        obtain k where k: "fst (backOff c request options (Suc attempt)) =
            concat (map ?step [Suc attempt..<Suc attempt + k])"
          and le: "Suc attempt + k \<le> max (Suc attempt) (numOfAttempts options)"
          by blast
        have "fst (backOff c request options attempt) =
            ?step attempt @ fst (backOff c request options (Suc attempt))"
          using lt Inl False
          by (simp add: backOff.simps [of c request options attempt] Let_def backoff_step_def
                split: prod.splits)
        also have "\<dots> = concat (map ?step [attempt..<attempt + Suc k])"
          by (simp add: k upt_conv_Cons del: upt_Suc)
        finally have "fst (backOff c request options attempt) =
            concat (map ?step [attempt..<attempt + Suc k])
            \<and> attempt + Suc k \<le> max attempt (numOfAttempts options)"
          using le lt by simp
        then show ?thesis by (rule exI)
      qed
    qed
  qed
qed

lemma backOff_handler_shape:
  "\<exists>k\<le>10. fst (backOff c request \<lparr>startingDelay = 10000, numOfAttempts = 10\<rparr> 0) =
            backoff_calls c 10000 k"
  using backOff_shape [of c request "\<lparr>startingDelay = 10000, numOfAttempts = 10\<rparr>" 0]
  by (auto simp: backoff_calls_def)

lemma backoff_calls_stage:
  assumes "x \<in> set (backoff_calls c delay k)"
  shows "x = c \<or> stage_of x = Backoff"
  using assms by (auto simp: backoff_calls_def backoff_step_def split: if_splits)

lemma handler_embed_shape:
  "\<exists>k post. k \<le> 10
     \<and> fst (handler_embed I S model idk prompt q pid key) =
         backoff_calls (EmbeddingCall q key) 10000 k @ post
     \<and> (post = []
        \<or> (\<exists>e. post = fst (handler_retrieve I S model idk q pid e)
              \<and> snd (handler_embed I S model idk prompt q pid key) =
                  snd (handler_retrieve I S model idk q pid e)))"
proof -
  let ?b = "backOff (EmbeddingCall q key) (\<lambda>attempt. createEmbedding S attempt q key)
      \<lparr>startingDelay = 10000, numOfAttempts = 10\<rparr> 0"
  obtain calls r where b: "?b = (calls, r)" by (cases ?b)
  obtain k where k: "k \<le> 10" "calls = backoff_calls (EmbeddingCall q key) 10000 k"
    using backOff_handler_shape [of "EmbeddingCall q key"
        "\<lambda>attempt. createEmbedding S attempt q key"] b
    by auto
  show ?thesis
  proof (cases r)
    case (Inl err)
    then have "fst (handler_embed I S model idk prompt q pid key) = calls @ []"
      by (simp add: handler_embed_def b)
    with k show ?thesis by metis
  next
    case (Inr embeddingResult)
    show ?thesis
    proof (cases "promptEmbedding embeddingResult")
      case None
      with Inr have "fst (handler_embed I S model idk prompt q pid key) = calls @ []"
        by (simp add: handler_embed_def after_def b)
      with k show ?thesis by metis
    next
      case (Some e)
      with Inr have "fst (handler_embed I S model idk prompt q pid key) =
          calls @ fst (handler_retrieve I S model idk q pid e)
        \<and> snd (handler_embed I S model idk prompt q pid key) =
          snd (handler_retrieve I S model idk q pid e)"
        by (simp add: handler_embed_def after_def b)
      with k show ?thesis by metis
    qed
  qed
qed

lemma handler_admit_shape:
  "\<exists>pre k post q key.
     fst (handler_admit I S model idk prompt pid) =
       pre @ backoff_calls (EmbeddingCall q key) 10000 k @ post
     \<and> (map stage_of pre = [RateLimit] \<or> map stage_of pre = [RateLimit, OpenAIKey, Moderation])
     \<and> k \<le> 10
     \<and> (post = []
        \<or> (\<exists>e. post = fst (handler_retrieve I S model idk q pid e)
              \<and> snd (handler_admit I S model idk prompt pid) =
                  snd (handler_retrieve I S model idk q pid e)))"
proof (cases "success (result (checkCompletionsRateLimits S pid))")
  case False
  then have "fst (handler_admit I S model idk prompt pid) =
      [RateLimitCall pid] @ backoff_calls (EmbeddingCall [] None) 10000 0 @ []"
    by (simp add: rate_limited_admit backoff_calls_def)
  moreover have "map stage_of [RateLimitCall pid] = [RateLimit]" by simp
  ultimately show ?thesis by (metis le0)
next
  case allowed: True
  let ?q = "replaceAll_nl (trim prompt)"
  let ?key = "getOpenAIKey S pid"
  let ?pre = "[RateLimitCall pid, OpenAIKeyCall pid, ModerationCall ?q ?key]"
  have st: "map stage_of ?pre = [RateLimit, OpenAIKey, Moderation]" by simp
  show ?thesis
  proof (cases "flagged (createModeration S ?q ?key)")
    case True
    with allowed have "fst (handler_admit I S model idk prompt pid) =
        ?pre @ backoff_calls (EmbeddingCall [] None) 10000 0 @ []"
      by (simp add: handler_admit_def Let_def after_def backoff_calls_def)
    with st show ?thesis by (metis le0)
  next
    case False
    with allowed have eq: "fst (handler_admit I S model idk prompt pid) =
        ?pre @ fst (handler_embed I S model idk prompt ?q pid ?key)"
      "snd (handler_admit I S model idk prompt pid) =
        snd (handler_embed I S model idk prompt ?q pid ?key)"
      by (simp_all add: handler_admit_def Let_def after_def)
    from handler_embed_shape [of I S model idk prompt ?q pid ?key]
    obtain k post where "k \<le> 10"
      "fst (handler_embed I S model idk prompt ?q pid ?key) =
         backoff_calls (EmbeddingCall ?q ?key) 10000 k @ post"
      "post = [] \<or> (\<exists>e. post = fst (handler_retrieve I S model idk ?q pid e)
              \<and> snd (handler_embed I S model idk prompt ?q pid ?key) =
                  snd (handler_retrieve I S model idk ?q pid e))"
      by blast
    with eq st show ?thesis by metis
  qed
qed

lemma handler_shape:
  "\<exists>pre k post q key.
     fst (handler I S req) = pre @ backoff_calls (EmbeddingCall q key) 10000 k @ post
     \<and> (map stage_of pre = [] \<or> map stage_of pre = [RateLimit]
        \<or> map stage_of pre = [RateLimit, OpenAIKey, Moderation])
     \<and> k \<le> 10
     \<and> (post = []
        \<or> (\<exists>model idk pid e. post = fst (handler_retrieve I S model idk q pid e)
              \<and> snd (handler I S req) = snd (handler_retrieve I S model idk q pid e)))"
proof (cases "\<exists>model idk prompt pid. handler I S req = handler_admit I S model idk prompt pid")
  case True
  then obtain model idk prompt pid
    where h: "handler I S req = handler_admit I S model idk prompt pid" by blast
  from handler_admit_shape [of I S model idk prompt pid] show ?thesis
    unfolding h by metis
next
  case False
  then have "fst (handler I S req) = []"
    by (auto simp: handler_def Let_def split: if_splits option.splits)
  then have "fst (handler I S req) = [] @ backoff_calls (EmbeddingCall [] None) 10000 0 @ []"
    by (simp add: backoff_calls_def)
  moreover have "map stage_of ([] :: call list) = []" by simp
  ultimately show ?thesis by (metis le0)
qed

lemma retrieval_call_inversion:
  assumes "RetrievalCall p e t c m \<in> set (fst (handler I S req))"
  shows "t = match_threshold \<and> c = match_count \<and> m = min_content_length
         \<and> (\<exists>pre model idk q.
               fst (handler I S req) = pre @ fst (handler_retrieve I S model idk q p e)
               \<and> snd (handler I S req) = snd (handler_retrieve I S model idk q p e)
               \<and> Completion \<notin> set (map stage_of pre))"
proof -
  from handler_shape [of I S req] obtain pre k post q key
    where tr: "fst (handler I S req) = pre @ backoff_calls (EmbeddingCall q key) 10000 k @ post"
      and pre: "map stage_of pre = [] \<or> map stage_of pre = [RateLimit]
        \<or> map stage_of pre = [RateLimit, OpenAIKey, Moderation]"
      and post: "post = []
        \<or> (\<exists>model idk pid e. post = fst (handler_retrieve I S model idk q pid e)
              \<and> snd (handler I S req) = snd (handler_retrieve I S model idk q pid e))"
    by (elim exE conjE) (rule that)
  let ?x = "RetrievalCall p e t c m"
  let ?bo = "backoff_calls (EmbeddingCall q key) 10000 k"
  have pre_stages: "stage_of y \<in> {RateLimit, OpenAIKey, Moderation}" if "y \<in> set pre" for y
  proof -
    from that have "stage_of y \<in> set (map stage_of pre)" by simp
    with pre show ?thesis by auto
  qed
  have "?x \<notin> set pre" using pre_stages [of ?x] by auto
  moreover have "?x \<notin> set ?bo"
    using backoff_calls_stage [of ?x "EmbeddingCall q key" 10000 k] by auto
  ultimately have in_post: "?x \<in> set post" using assms tr by auto
  with post obtain model idk pid e'
    where p1: "post = fst (handler_retrieve I S model idk q pid e')"
      and p2: "snd (handler I S req) = snd (handler_retrieve I S model idk q pid e')"
    by auto
  from handler_retrieve_calls [of I S model idk q pid e'] obtain post'
    where r: "fst (handler_retrieve I S model idk q pid e') =
        RetrievalCall pid e' match_threshold match_count min_content_length # post'"
      and r': "map stage_of post' = [] \<or> map stage_of post' = [Completion]"
    by (elim exE conjE) (rule that)
  have "?x \<notin> set post'"
  proof
    assume "?x \<in> set post'"
    then have "stage_of ?x \<in> stage_of ` set post'" by (rule imageI)
    then have "Retrieval \<in> set (map stage_of post')" by simp
    with r' show False by auto
  qed
  with in_post p1 r
  have eq: "?x = RetrievalCall pid e' match_threshold match_count min_content_length"
    by auto
  have no: "Completion \<notin> set (map stage_of (pre @ ?bo))"
  proof -
    have "stage_of y \<noteq> Completion" if "y \<in> set (pre @ ?bo)" for y
      using that pre_stages [of y] backoff_calls_stage [of y "EmbeddingCall q key" 10000 k]
      by auto
    then show ?thesis by force
  qed
  from eq have v: "t = match_threshold" "c = match_count" "m = min_content_length"
    and w: "pid = p" "e' = e"
    by (simp_all only: call.inject)
  have "fst (handler I S req) = (pre @ ?bo) @ fst (handler_retrieve I S model idk q p e)"
    using tr p1 w by simp
  moreover have "snd (handler I S req) = snd (handler_retrieve I S model idk q p e)"
    using p2 w by simp
  ultimately have "\<exists>pre model idk q.
      fst (handler I S req) = pre @ fst (handler_retrieve I S model idk q p e)
      \<and> snd (handler I S req) = snd (handler_retrieve I S model idk q p e)
      \<and> Completion \<notin> set (map stage_of pre)"
    using no by (intro exI conjI)
  with v show ?thesis by simp
qed

text \<open>
  C9. Every retrieval call of the handler has the threshold 0.78, the count 10 and the
  minimum content length 50, whatever the request. When the retrieval the handler issued
  returns no section list or an empty one, the handler returns a 400 response and makes
  no completion call; the response is \<open>No relevant sections found\<close> when the retrieval
  reported no error.
\<close>

theorem retrieval_policy:
  "match_threshold = 78 / 100 \<and> match_count = 10 \<and> min_content_length = 50
   \<and> (RetrievalCall p e t c m \<in> set (fst (handler I S req)) \<longrightarrow>
        t = match_threshold \<and> c = match_count \<and> m = min_content_length)
   \<and> (RetrievalCall p e t c m \<in> set (fst (handler I S req))
        \<and> (rpc_data (match_file_sections S p e t c m) = None
           \<or> rpc_data (match_file_sections S p e t c m) = Some []) \<longrightarrow>
      (\<exists>message. snd (handler I S req) = text_response message 400)
      \<and> (rpc_error (match_file_sections S p e t c m) = None \<longrightarrow>
           snd (handler I S req) = text_response ''No relevant sections found'' 400)
      \<and> Completion \<notin> set (map stage_of (fst (handler I S req))))"
proof (intro conjI impI)
  show "match_threshold = 78 / 100" "match_count = 10" "min_content_length = 50"
    by (simp_all add: match_threshold_def match_count_def min_content_length_def)
next
  assume "RetrievalCall p e t c m \<in> set (fst (handler I S req))"
  from retrieval_call_inversion [OF this]
  show "t = match_threshold" "c = match_count" "m = min_content_length" by simp_all
next
  assume a: "RetrievalCall p e t c m \<in> set (fst (handler I S req))
        \<and> (rpc_data (match_file_sections S p e t c m) = None
           \<or> rpc_data (match_file_sections S p e t c m) = Some [])"
  then have b: "RetrievalCall p e t c m \<in> set (fst (handler I S req))" by (rule conjunct1)
  note inv = retrieval_call_inversion [OF b]
  from inv have v: "t = match_threshold" "c = match_count" "m = min_content_length"
    by simp_all
  from inv have "\<exists>pre model idk q.
      fst (handler I S req) = pre @ fst (handler_retrieve I S model idk q p e)
      \<and> snd (handler I S req) = snd (handler_retrieve I S model idk q p e)
      \<and> Completion \<notin> set (map stage_of pre)"
    by (elim conjE)
  then obtain pre model idk q
    where tr: "fst (handler I S req) = pre @ fst (handler_retrieve I S model idk q p e)"
      and out: "snd (handler I S req) = snd (handler_retrieve I S model idk q p e)"
      and pre: "Completion \<notin> set (map stage_of pre)"
    by (elim conjE exE) (rule that)
  from a v have d:
    "rpc_data (match_file_sections S p e match_threshold match_count min_content_length) = None
     \<or> rpc_data (match_file_sections S p e match_threshold match_count min_content_length) = Some []"
    by simp
  note r = handler_retrieve_empty [OF d, of I model idk q]
  from r out show "\<exists>message. snd (handler I S req) = text_response message 400" by simp
  from r tr pre show "Completion \<notin> set (map stage_of (fst (handler I S req)))" by simp
  assume "rpc_error (match_file_sections S p e t c m) = None"
  with r out v show "snd (handler I S req) = text_response ''No relevant sections found'' 400"
    by simp
qed

lemma example_request_fields:
  "req_method example_request = ''POST''"
  "projectIdParam example_request = Some ''acme''"
  "substring0 (MAX_PROMPT_LENGTH example_externals) (params_prompt example_request) =
     ''What is the refund policy?''"
  "replaceAll_nl (trim ''What is the refund policy?'') = ''What is the refund policy?''"
  by (simp_all add: projectIdParam_example)
     (simp_all add: example_request_def example_externals_def substring0_def
        replaceAll_nl_def trim_def isWhiteSpace_def NL_def)

lemma handler_example_no_sections:
  "fst (handler example_externals
     (example_services\<lparr>match_file_sections := example_retrieval []\<rparr>) example_request) =
   [RateLimitCall ''acme'', OpenAIKeyCall ''acme'',
    ModerationCall ''What is the refund policy?'' None,
    EmbeddingCall ''What is the refund policy?'' None,
    RetrievalCall ''acme'' [1 / 2, 1 / 4] match_threshold match_count min_content_length]"
proof -
  let ?S = "example_services\<lparr>match_file_sections := example_retrieval []\<rparr>"
  have e: "backOff (EmbeddingCall q None)
      (\<lambda>attempt. createEmbedding ?S attempt q None)
      \<lparr>startingDelay = 10000, numOfAttempts = 10\<rparr> 0 =
      ([EmbeddingCall q None], Inr (Data [[1 / 2, 1 / 4]]))" for q
    by (rule backOff_first_attempt)
       (simp_all add: createEmbedding_def example_services_def example_fetch_embeddings_def)
  have k: "getOpenAIKey example_services ''acme'' = None"
    and l: "success (result (checkCompletionsRateLimits example_services ''acme''))"
    and f: "\<not> flagged (createModeration example_services q None)"
    and r: "example_retrieval [] p v t c n = \<lparr>rpc_error = None, rpc_data = Some []\<rparr>"
    for q p v t c n
    by (simp_all add: example_services_def example_getOpenAIKey_def example_rate_limit_def
          example_moderation_def flagged_def example_retrieval_def)
  show ?thesis
    by (simp add: handler_def Let_def example_request_fields handler_admit_def
          handler_embed_def handler_retrieve_def after_def k l f e r promptEmbedding_def)
qed

theorem retrieval_policy_witness:
  "snd (handler example_externals
     (example_services\<lparr>match_file_sections := example_retrieval []\<rparr>) example_request) =
     text_response ''No relevant sections found'' 400
   \<and> Completion \<notin> set (map stage_of (fst (handler example_externals
       (example_services\<lparr>match_file_sections := example_retrieval []\<rparr>) example_request)))"
proof -
  let ?S = "example_services\<lparr>match_file_sections := example_retrieval []\<rparr>"
  let ?t = "fst (handler example_externals ?S example_request)"
  have a: "RetrievalCall ''acme'' [1 / 2, 1 / 4] match_threshold match_count min_content_length
      \<in> set ?t"
    by (simp add: handler_example_no_sections)
  have d: "rpc_data (match_file_sections ?S ''acme'' [1 / 2, 1 / 4] match_threshold match_count
      min_content_length) = Some []"
    and n: "rpc_error (match_file_sections ?S ''acme'' [1 / 2, 1 / 4] match_threshold
      match_count min_content_length) = None"
    by (simp_all add: example_retrieval_def)
  from retrieval_policy [of "''acme''" "[1 / 2, 1 / 4]" match_threshold match_count
      min_content_length example_externals ?S example_request] a d n
  show ?thesis by simp
qed

lemma backoff_calls_Suc:
  "backoff_calls c delay (Suc k) = backoff_calls c delay k @ backoff_step c delay k"
  by (simp add: backoff_calls_def)

lemma backoff_calls_attempts:
  "count_list (map stage_of (backoff_calls (EmbeddingCall q key) delay k)) Embedding = k"
proof (induction k)
  case 0
  show ?case by (simp add: backoff_calls_def)
next
  case (Suc k)
  then show ?case by (simp add: backoff_calls_Suc backoff_step_def)
qed

lemma backoff_calls_delays:
  "filter (\<lambda>x. stage_of x = Backoff) (backoff_calls (EmbeddingCall q key) delay k) =
     map (\<lambda>i. Delay (delay * 2 ^ i)) [0..<k - 1]"
proof (induction k)
  case 0
  show ?case by (simp add: backoff_calls_def)
next
  case (Suc k)
  show ?case
  proof (cases k)
    case 0
    then show ?thesis by (simp add: backoff_calls_def backoff_step_def)
  next
    case (Suc j)
    with Suc.IH show ?thesis by (simp add: backoff_calls_Suc backoff_step_def)
  qed
qed

lemma backoff_calls_others:
  assumes "s \<noteq> Embedding" and "s \<noteq> Backoff"
  shows "count_list (map stage_of (backoff_calls (EmbeddingCall q key) delay k)) s = 0"
proof -
  have "s \<notin> set (map stage_of (backoff_calls (EmbeddingCall q key) delay k))"
    using assms by (auto dest: backoff_calls_stage)
  then show ?thesis by simp
qed

lemma handler_stages:
  "\<exists>pre k post q key.
     fst (handler I S req) = pre @ backoff_calls (EmbeddingCall q key) 10000 k @ post
     \<and> (map stage_of pre = [] \<or> map stage_of pre = [RateLimit]
        \<or> map stage_of pre = [RateLimit, OpenAIKey, Moderation])
     \<and> k \<le> 10
     \<and> (map stage_of post = [] \<or> map stage_of post = [Retrieval]
        \<or> map stage_of post = [Retrieval, Completion])"
proof -
  from handler_shape [of I S req] obtain pre k post q key
    where tr: "fst (handler I S req) = pre @ backoff_calls (EmbeddingCall q key) 10000 k @ post"
      and pre: "map stage_of pre = [] \<or> map stage_of pre = [RateLimit]
        \<or> map stage_of pre = [RateLimit, OpenAIKey, Moderation]"
      and k: "k \<le> 10"
      and post: "post = []
        \<or> (\<exists>model idk pid e. post = fst (handler_retrieve I S model idk q pid e)
              \<and> snd (handler I S req) = snd (handler_retrieve I S model idk q pid e))"
    by (elim exE conjE) (rule that)
  have "map stage_of post = [] \<or> map stage_of post = [Retrieval]
        \<or> map stage_of post = [Retrieval, Completion]"
  proof (cases "post = []")
    case True
    then show ?thesis by simp
  next
    case False
    with post obtain model idk pid e
      where "post = fst (handler_retrieve I S model idk q pid e)" by auto
    with handler_retrieve_calls [of I S model idk q pid e] show ?thesis by auto
  qed
  with tr pre k show ?thesis by (intro exI conjI)
qed

lemma handler_attempts:
  "count_list (map stage_of (fst (handler I S req))) Embedding \<le> 10
   \<and> filter (\<lambda>c. stage_of c = Backoff) (fst (handler I S req)) =
       map (\<lambda>i. Delay (10000 * 2 ^ i))
         [0..<count_list (map stage_of (fst (handler I S req))) Embedding - 1]
   \<and> (s \<noteq> Embedding \<and> s \<noteq> Backoff \<longrightarrow>
        count_list (map stage_of (fst (handler I S req))) s \<le> 1)"
proof -
  from handler_stages [of I S req] obtain pre k post q key
    where tr: "fst (handler I S req) = pre @ backoff_calls (EmbeddingCall q key) 10000 k @ post"
      and pre: "map stage_of pre = [] \<or> map stage_of pre = [RateLimit]
        \<or> map stage_of pre = [RateLimit, OpenAIKey, Moderation]"
      and k: "k \<le> 10"
      and post: "map stage_of post = [] \<or> map stage_of post = [Retrieval]
        \<or> map stage_of post = [Retrieval, Completion]"
    by (elim exE conjE) (rule that)
  let ?bo = "backoff_calls (EmbeddingCall q key) 10000 k"
  have cnt: "count_list (map stage_of (fst (handler I S req))) x =
      count_list (map stage_of pre) x + count_list (map stage_of ?bo) x
      + count_list (map stage_of post) x" for x
    by (simp add: tr)
  have e: "count_list (map stage_of (fst (handler I S req))) Embedding = k"
    unfolding cnt backoff_calls_attempts using pre post by auto
  have fpre: "filter (\<lambda>c. stage_of c = Backoff) pre = []"
  proof -
    have "Backoff \<notin> set (map stage_of pre)" using pre by auto
    then show ?thesis by (force simp: filter_empty_conv)
  qed
  have fpost: "filter (\<lambda>c. stage_of c = Backoff) post = []"
  proof -
    have "Backoff \<notin> set (map stage_of post)" using post by auto
    then show ?thesis by (force simp: filter_empty_conv)
  qed
  have d: "filter (\<lambda>c. stage_of c = Backoff) (fst (handler I S req)) =
      map (\<lambda>i. Delay (10000 * 2 ^ i)) [0..<k - 1]"
    by (simp add: tr fpre fpost backoff_calls_delays)
  have o: "count_list (map stage_of (fst (handler I S req))) s \<le> 1"
    if "s \<noteq> Embedding" "s \<noteq> Backoff"
    unfolding cnt backoff_calls_others [OF that] using pre post by auto
  from e k d o show ?thesis by simp
qed

lemma backOff_retry:
  assumes "isl (request attempt)" and "Suc attempt < numOfAttempts options"
  shows "backOff c request options attempt =
           (backoff_step c (startingDelay options) attempt
              @ fst (backOff c request options (Suc attempt)),
            snd (backOff c request options (Suc attempt)))"
  using assms
  by (cases "request attempt")
     (simp_all add: backOff.simps [of c request options attempt] Let_def backoff_step_def
        split: prod.splits)

lemma backOff_give_up:
  assumes "isl (request attempt)" and "Suc attempt = numOfAttempts options"
  shows "backOff c request options attempt =
           (backoff_step c (startingDelay options) attempt, request attempt)"
  using assms
  by (cases "request attempt")
     (simp_all add: backOff.simps [of c request options attempt] Let_def backoff_step_def)

lemma backOff_exhausted:
  assumes "\<forall>attempt<10. request attempt = Inl (err attempt)"
  shows "backOff c request \<lparr>startingDelay = 10000, numOfAttempts = 10\<rparr> 0 =
           ([c, Delay 10000, c, Delay 20000, c, Delay 40000, c, Delay 80000, c, Delay 160000,
             c, Delay 320000, c, Delay 640000, c, Delay 1280000, c, Delay 2560000, c],
            Inl (err 9))"
proof -
  have f: "isl (request attempt)" if "attempt < 10" for attempt
    using assms that by simp
  have n: "Suc (Suc (Suc (Suc (Suc (Suc (Suc (Suc (Suc 0)))))))) = 9" by simp
  have l: "request (Suc (Suc (Suc (Suc (Suc (Suc (Suc (Suc (Suc 0))))))))) = Inl (err 9)"
    using assms by (simp add: n)
  show ?thesis
    by (simp add: backOff_retry backOff_give_up f l backoff_step_def)
qed

lemma handler_embedding_exhausted:
  assumes "req_method req = ''POST''" and "projectIdParam req = Some projectId"
    and "projectId \<noteq> []"
    and "substring0 (MAX_PROMPT_LENGTH I) (params_prompt req) = prompt" and "prompt \<noteq> []"
    and "success (result (checkCompletionsRateLimits S projectId))"
    and "replaceAll_nl (trim prompt) = q" and "getOpenAIKey S projectId = key"
    and "\<not> flagged (createModeration S q key)"
    and "\<forall>attempt<10. createEmbedding S attempt q key = Inl (err attempt)"
  shows "handler I S req =
     ([RateLimitCall projectId, OpenAIKeyCall projectId, ModerationCall q key,
       EmbeddingCall q key, Delay 10000, EmbeddingCall q key, Delay 20000,
       EmbeddingCall q key, Delay 40000, EmbeddingCall q key, Delay 80000,
       EmbeddingCall q key, Delay 160000, EmbeddingCall q key, Delay 320000,
       EmbeddingCall q key, Delay 640000, EmbeddingCall q key, Delay 1280000,
       EmbeddingCall q key, Delay 2560000, EmbeddingCall q key],
      text_response
        (''Error creating embedding for prompt '' @ [CHR 0x27] @ prompt @ [CHR 0x27]
           @ '': '' @ err 9) 400)"
proof -
  note b = backOff_exhausted [of "\<lambda>attempt. createEmbedding S attempt q key" err
      "EmbeddingCall q key", OF assms(10)]
  have ne: "substring0 (MAX_PROMPT_LENGTH I) (params_prompt req) \<noteq> []"
    using assms(4,5) by simp
  show ?thesis
    unfolding handler_valid [OF assms(1,2,3) ne] assms(4)
    using assms(6,7,8,9)
    by (simp add: handler_admit_def handler_embed_def Let_def after_def b)
qed

text \<open>
  What the backoff gives. Per request the handler makes at most 10 embedding calls; the
  delays between them are 10000 ms before the second attempt and twice the previous delay
  before each later one; every other stage is called at most once. When the request
  reaches the embedding and the promise of \<open>createEmbedding\<close> is rejected at all ten
  attempts, the handler returns the status 400 with the last error, after ten embedding
  calls and nine delays, and makes no retrieval or completion call.
\<close>

lemma embedding_backoff:
  "count_list (map stage_of (fst (handler I S req))) Embedding \<le> 10
   \<and> filter (\<lambda>c. stage_of c = Backoff) (fst (handler I S req)) =
       map (\<lambda>i. Delay (10000 * 2 ^ i))
         [0..<count_list (map stage_of (fst (handler I S req))) Embedding - 1]
   \<and> (s \<noteq> Embedding \<and> s \<noteq> Backoff \<longrightarrow>
        count_list (map stage_of (fst (handler I S req))) s \<le> 1)
   \<and> (req_method req = ''POST'' \<and> projectIdParam req = Some projectId \<and> projectId \<noteq> []
        \<and> substring0 (MAX_PROMPT_LENGTH I) (params_prompt req) = prompt \<and> prompt \<noteq> []
        \<and> success (result (checkCompletionsRateLimits S projectId))
        \<and> replaceAll_nl (trim prompt) = q \<and> getOpenAIKey S projectId = key
        \<and> \<not> flagged (createModeration S q key)
        \<and> (\<forall>attempt<10. createEmbedding S attempt q key = Inl (err attempt)) \<longrightarrow>
      handler I S req =
        ([RateLimitCall projectId, OpenAIKeyCall projectId, ModerationCall q key,
          EmbeddingCall q key, Delay 10000, EmbeddingCall q key, Delay 20000,
          EmbeddingCall q key, Delay 40000, EmbeddingCall q key, Delay 80000,
          EmbeddingCall q key, Delay 160000, EmbeddingCall q key, Delay 320000,
          EmbeddingCall q key, Delay 640000, EmbeddingCall q key, Delay 1280000,
          EmbeddingCall q key, Delay 2560000, EmbeddingCall q key],
         text_response
           (''Error creating embedding for prompt '' @ [CHR 0x27] @ prompt @ [CHR 0x27]
              @ '': '' @ err 9) 400))"
proof -
  note a = handler_attempts [of I S req s]
  have x: "req_method req = ''POST'' \<and> projectIdParam req = Some projectId \<and> projectId \<noteq> []
        \<and> substring0 (MAX_PROMPT_LENGTH I) (params_prompt req) = prompt \<and> prompt \<noteq> []
        \<and> success (result (checkCompletionsRateLimits S projectId))
        \<and> replaceAll_nl (trim prompt) = q \<and> getOpenAIKey S projectId = key
        \<and> \<not> flagged (createModeration S q key)
        \<and> (\<forall>attempt<10. createEmbedding S attempt q key = Inl (err attempt)) \<longrightarrow>
      handler I S req =
        ([RateLimitCall projectId, OpenAIKeyCall projectId, ModerationCall q key,
          EmbeddingCall q key, Delay 10000, EmbeddingCall q key, Delay 20000,
          EmbeddingCall q key, Delay 40000, EmbeddingCall q key, Delay 80000,
          EmbeddingCall q key, Delay 160000, EmbeddingCall q key, Delay 320000,
          EmbeddingCall q key, Delay 640000, EmbeddingCall q key, Delay 1280000,
          EmbeddingCall q key, Delay 2560000, EmbeddingCall q key],
         text_response
           (''Error creating embedding for prompt '' @ [CHR 0x27] @ prompt @ [CHR 0x27]
              @ '': '' @ err 9) 400)"
    by (intro impI, elim conjE) (rule handler_embedding_exhausted)
  from a [THEN conjunct1] a [THEN conjunct2, THEN conjunct1]
    a [THEN conjunct2, THEN conjunct2] x
  show ?thesis by (intro conjI)
qed

lemma embedding_backoff_rejected:
  "handler example_externals (example_services\<lparr>fetch_embeddings := example_fetch_embeddings 10\<rparr>)
     example_request =
     ([RateLimitCall ''acme'', OpenAIKeyCall ''acme'',
       ModerationCall ''What is the refund policy?'' None,
       EmbeddingCall ''What is the refund policy?'' None, Delay 10000,
       EmbeddingCall ''What is the refund policy?'' None, Delay 20000,
       EmbeddingCall ''What is the refund policy?'' None, Delay 40000,
       EmbeddingCall ''What is the refund policy?'' None, Delay 80000,
       EmbeddingCall ''What is the refund policy?'' None, Delay 160000,
       EmbeddingCall ''What is the refund policy?'' None, Delay 320000,
       EmbeddingCall ''What is the refund policy?'' None, Delay 640000,
       EmbeddingCall ''What is the refund policy?'' None, Delay 1280000,
       EmbeddingCall ''What is the refund policy?'' None, Delay 2560000,
       EmbeddingCall ''What is the refund policy?'' None],
      text_response
        (''Error creating embedding for prompt '' @ [CHR 0x27]
           @ ''What is the refund policy?'' @ [CHR 0x27] @ '': TypeError: fetch failed'') 400)"
proof -
  let ?S = "example_services\<lparr>fetch_embeddings := example_fetch_embeddings 10\<rparr>"
  have h: "req_method example_request = ''POST''
      \<and> projectIdParam example_request = Some ''acme'' \<and> ''acme'' \<noteq> []
      \<and> substring0 (MAX_PROMPT_LENGTH example_externals) (params_prompt example_request) =
          ''What is the refund policy?''
      \<and> ''What is the refund policy?'' \<noteq> []
      \<and> success (result (checkCompletionsRateLimits ?S ''acme''))
      \<and> replaceAll_nl (trim ''What is the refund policy?'') = ''What is the refund policy?''
      \<and> getOpenAIKey ?S ''acme'' = None
      \<and> \<not> flagged (createModeration ?S ''What is the refund policy?'' None)
      \<and> (\<forall>attempt<10. createEmbedding ?S attempt ''What is the refund policy?'' None =
            Inl (example_fetch_error attempt))"
    by (simp add: example_request_fields)
       (simp add: example_services_def example_rate_limit_def example_getOpenAIKey_def
          example_moderation_def flagged_def createEmbedding_def example_fetch_embeddings_def
          example_fetch_error_def)
  have e: "example_fetch_error 9 = ''TypeError: fetch failed''"
    by (simp add: example_fetch_error_def)
  from embedding_backoff [of example_externals ?S example_request _ "''acme''"
      "''What is the refund policy?''" "''What is the refund policy?''" None
      example_fetch_error, THEN conjunct2, THEN conjunct2, THEN conjunct2, rule_format, OF h]
  show ?thesis by (simp add: e)
qed

text \<open>
  An answer of the embedding endpoint with a JSON body resolves the promise of
  \<open>createEmbedding\<close>, whatever its status: the backoff makes one attempt and no delay.
\<close>

lemma handler_embed_answered:
  assumes "fetch_embeddings S 0 (replaceAll_nl (trim q)) key = Answered code (Inr answer)"
  shows "handler_embed I S model idk prompt q pid key =
           after [EmbeddingCall q key]
             (case promptEmbedding answer of
                None \<Rightarrow>
                  ([], text_response
                         (''Error creating embedding for prompt '' @ [CHR 0x27] @ prompt
                            @ [CHR 0x27]) 400)
              | Some e \<Rightarrow> handler_retrieve I S model idk q pid e)"
proof -
  have "createEmbedding S 0 q key = Inr answer"
    using assms by (simp add: createEmbedding_def)
  then have "backOff (EmbeddingCall q key) (\<lambda>attempt. createEmbedding S attempt q key)
      \<lparr>startingDelay = 10000, numOfAttempts = 10\<rparr> 0 = ([EmbeddingCall q key], Inr answer)"
    by (intro backOff_first_attempt) simp_all
  then show ?thesis by (simp add: handler_embed_def)
qed

text \<open>
  C6. The handler on two embedding endpoints. When every fetch is rejected, the embedding
  call is made ten times, with delays from 10000 ms doubling to 2560000 ms, and the
  request fails with the status 400. When the endpoint answers every attempt with the
  status 429 and a JSON error body, the promise of \<open>createEmbedding\<close> is not rejected:
  the handler makes one embedding call, no delay and no second attempt, and fails with
  the status 400 at once.
\<close>

theorem embedding_error_not_retried:
  "handler example_externals
     (example_services\<lparr>fetch_embeddings := example_fetch_embeddings 10\<rparr>) example_request =
     ([RateLimitCall ''acme'', OpenAIKeyCall ''acme'',
       ModerationCall ''What is the refund policy?'' None,
       EmbeddingCall ''What is the refund policy?'' None, Delay 10000,
       EmbeddingCall ''What is the refund policy?'' None, Delay 20000,
       EmbeddingCall ''What is the refund policy?'' None, Delay 40000,
       EmbeddingCall ''What is the refund policy?'' None, Delay 80000,
       EmbeddingCall ''What is the refund policy?'' None, Delay 160000,
       EmbeddingCall ''What is the refund policy?'' None, Delay 320000,
       EmbeddingCall ''What is the refund policy?'' None, Delay 640000,
       EmbeddingCall ''What is the refund policy?'' None, Delay 1280000,
       EmbeddingCall ''What is the refund policy?'' None, Delay 2560000,
       EmbeddingCall ''What is the refund policy?'' None],
      text_response
        (''Error creating embedding for prompt '' @ [CHR 0x27]
           @ ''What is the refund policy?'' @ [CHR 0x27] @ '': TypeError: fetch failed'') 400)
   \<and> handler example_externals
     (example_services\<lparr>fetch_embeddings := example_too_many_requests\<rparr>) example_request =
     ([RateLimitCall ''acme'', OpenAIKeyCall ''acme'',
       ModerationCall ''What is the refund policy?'' None,
       EmbeddingCall ''What is the refund policy?'' None],
      text_response
        (''Error creating embedding for prompt '' @ [CHR 0x27]
           @ ''What is the refund policy?'' @ [CHR 0x27]) 400)"
proof -
  let ?S = "example_services\<lparr>fetch_embeddings := example_too_many_requests\<rparr>"
  have a: "fetch_embeddings ?S 0 (replaceAll_nl (trim ''What is the refund policy?'')) None =
      Answered 429 (Inr NoData)"
    by (simp add: example_too_many_requests_def)
  have k: "getOpenAIKey ?S ''acme'' = None"
    and l: "success (result (checkCompletionsRateLimits ?S ''acme''))"
    and f: "\<not> flagged (createModeration ?S q None)" for q
    by (simp_all add: example_services_def example_getOpenAIKey_def example_rate_limit_def
          example_moderation_def flagged_def)
  have "handler example_externals ?S example_request =
     ([RateLimitCall ''acme'', OpenAIKeyCall ''acme'',
       ModerationCall ''What is the refund policy?'' None,
       EmbeddingCall ''What is the refund policy?'' None],
      text_response
        (''Error creating embedding for prompt '' @ [CHR 0x27]
           @ ''What is the refund policy?'' @ [CHR 0x27]) 400)"
    using k l f
    by (simp add: handler_def Let_def example_request_fields handler_admit_def after_def
          handler_embed_answered [OF a] promptEmbedding_def)
  with embedding_backoff_rejected show ?thesis by (rule conjI)
qed

end
